theory Spec2Isabelle
  imports Main
begin

section \<open>Errors as values\<close>

text \<open>
  Every exception the modelled Python can raise is a value of \<open>exn\<close>; a function that can
  raise returns \<open>exn + 'a\<close> with \<open>Inl\<close> for the exception. \<open>ValidationError\<close> carries the
  message of \<open>serializers.ValidationError\<close>. \<open>Raised\<close> stands for an exception of the model
  layer (\<open>fedow_core.models\<close>), whose code is not part of the sources at hand.
\<close>

datatype exn =
    ValidationError string
  | InvalidSignature
  | ValueError
  | BinasciiError
  | DoesNotExist
  | MultipleObjectsReturned
  | AttributeError
  | KeyError
  | Raised string

section \<open>utils.py: signature verification\<close>

text \<open>
  \<open>verify_signature\<close> calls three library functions: \<open>serialization.load_pem_public_key\<close>,
  \<open>base64.urlsafe_b64decode\<close> and \<open>public_key.verify\<close> (RSA-PSS, SHA-256, MGF1, maximal
  salt length). They belong to the \<open>cryptography\<close> package and to the standard library, so
  they are parameters of the model, each returning either the exception it raises or its
  result. \<open>str.encode\<close> is the identity on the byte strings of HOL.
\<close>

record 'k crypto =
  load_pem_public_key :: "string \<Rightarrow> exn + 'k"
  urlsafe_b64decode :: "string \<Rightarrow> exn + string"
  pss_verify :: "'k \<Rightarrow> string \<Rightarrow> string \<Rightarrow> exn + unit"

text \<open>The only handler of the \<open>try\<close> block: \<open>except InvalidSignature: return False\<close>.\<close>

definition except_InvalidSignature :: "exn \<Rightarrow> exn + bool" where
  "except_InvalidSignature e = (if e = InvalidSignature then Inr False else Inl e)"

text \<open>
  The body of the \<open>try\<close> block in evaluation order: the key is loaded, the signature is
  decoded (an argument of the call), then \<open>verify\<close> runs; \<open>return True\<close> follows.
\<close>

definition verify_signature :: "'k crypto \<Rightarrow> string \<Rightarrow> string \<Rightarrow> string \<Rightarrow> exn + bool" where
  "verify_signature L public_key message signature =
     (case load_pem_public_key L public_key of
        Inl e \<Rightarrow> except_InvalidSignature e
      | Inr k \<Rightarrow>
          (case urlsafe_b64decode L signature of
             Inl e \<Rightarrow> except_InvalidSignature e
           | Inr s \<Rightarrow>
               (case pss_verify L k s message of
                  Inl e \<Rightarrow> except_InvalidSignature e
                | Inr _ \<Rightarrow> Inr True)))"

text \<open>
  A stand-in for the library, to run the model on concrete inputs: a key is accepted when
  it starts with the PEM header line, a signature when its length is a multiple of four
  (the padding rule of base64), and a signature verifies when it is the reversed message.
  What matters is which exception each failure raises: \<open>ValueError\<close> for data that is not
  a PEM key, \<open>binascii.Error\<close> for a wrongly padded signature, \<open>InvalidSignature\<close> for a
  mismatch.
\<close>

definition toy_crypto :: "string crypto" where
  "toy_crypto =
     \<lparr> load_pem_public_key =
         (\<lambda>s. if take 26 s = ''-----BEGIN PUBLIC KEY-----'' then Inr (drop 26 s) else Inl ValueError),
       urlsafe_b64decode =
         (\<lambda>s. if length s mod 4 = 0 then Inr s else Inl BinasciiError),
       pss_verify =
         (\<lambda>k s m. if s = rev m then Inr () else Inl InvalidSignature) \<rparr>"


section \<open>utils.py: the address of the caller\<close>

text \<open>
  The three entries of \<open>request.META\<close> that \<open>get_request_ip\<close> reads, each absent (\<open>None\<close>)
  or a string, and the place the permission class has attached to the request
  (\<open>request.place\<close>; absent for the payment webhook).
\<close>

record place =
  p_uuid :: nat
  p_wallet :: nat
  p_primary_cards :: "nat list"

record request =
  r_HTTP_X_FORWARDED_FOR :: "string option"
  r_HTTP_X_REAL_IP :: "string option"
  r_REMOTE_ADDR :: "string option"
  r_place :: "place option"

text \<open>Python's truth value of an optional string: \<open>None\<close> and the empty string are false.\<close>

definition truthy :: "string option \<Rightarrow> bool" where
  "truthy s = (case s of None \<Rightarrow> False | Some v \<Rightarrow> v \<noteq> [])"

definition get_request_ip :: "request \<Rightarrow> string option" where
  "get_request_ip rq =
     (if truthy (r_HTTP_X_FORWARDED_FOR rq)
      then map_option (takeWhile (\<lambda>c. c \<noteq> CHR '','')) (r_HTTP_X_FORWARDED_FOR rq)
      else if truthy (r_HTTP_X_REAL_IP rq) then r_HTTP_X_REAL_IP rq
      else r_REMOTE_ADDR rq)"

section \<open>The ledger data model\<close>

text \<open>
  Rows are identified by their primary key (a UUID, here a natural number); Django compares
  model instances by primary key, so \<open>==\<close> and \<open>in\<close> of the source are equalities and list
  memberships of keys. A \<open>Wallet\<close> row has no column but its key (models.py), so a wallet
  is its key; the two reverse relations the source reads on a wallet (\<open>user\<close>,
  \<open>card_ephemere\<close>) are looked up in the tables of users and cards.
\<close>

text \<open>
  Modelled from the spec: the asset categories (\<open>Asset.CATEGORIES\<close>) and the transaction
  actions (\<open>Transaction.TYPE_ACTION\<close>) are declared in a part of \<open>fedow_core.models\<close> that is
  not among the sources; the constructors are the names serializers.py uses, completed by
  the lists of sections 3 and 4.2 of the specification. \<open>BADGE_ASSET\<close> is \<open>Asset.BADGE\<close>
  (\<open>BADGE\<close> is \<open>Transaction.BADGE\<close>).
\<close>

datatype category =
    TOKEN_LOCAL_FIAT
  | TOKEN_LOCAL_NOT_FIAT
  | SUBSCRIPTION
  | BADGE_ASSET
  | EXTERNAL_PRIMARY

datatype action = CREATION | REFILL | SALE | TRANSFER | SUBSCRIBE | BADGE | FUSION | REFUND | VOID

record asset =
  a_uuid :: nat
  a_category :: category
  a_wallet_origin :: nat

text \<open>
  A card: \<open>c_user\<close> and \<open>c_wallet_ephemere\<close> are its two nullable foreign keys (a user, a
  wallet), \<open>c_origin_place\<close> is \<open>card.origin.place\<close>.
\<close>

record card =
  c_uuid :: nat
  c_user :: "nat option"
  c_wallet_ephemere :: "nat option"
  c_origin_place :: place

record fedow_user =
  u_uuid :: nat
  u_email :: string
  u_wallet :: nat

text \<open>
  A token is the balance of one asset in one wallet. Amounts and balances are whole numbers
  (\<open>amount = serializers.IntegerField()\<close>; the source only copies a balance into an amount
  and compares the two, and a balance with zero).
\<close>

record token =
  t_wallet :: nat
  t_asset :: asset
  t_value :: int

text \<open>
  The keyword arguments of \<open>Transaction.objects.create\<close>; the created row is identified
  with them. Keys a call does not pass are \<open>None\<close>.
\<close>

record tx =
  tx_ip :: "string option"
  tx_checkout_stripe :: "nat option"
  tx_sender :: nat
  tx_receiver :: nat
  tx_asset :: asset
  tx_amount :: int
  tx_action :: action
  tx_comment :: "string option"
  tx_metadata :: "string option"
  tx_primary_card :: "card option"
  tx_card :: "card option"
  tx_subscription_start_datetime :: "string option"

text \<open>The database: the tables the modelled code reads and writes; \<open>ledger\<close> is the table of
  transactions in the order of their creation.\<close>

record db =
  tokens :: "token list"
  ledger :: "tx list"
  cards :: "card list"
  users :: "fedow_user list"

text \<open>
  The methods of \<open>fedow_core.models\<close> that serializers.py calls and whose code is not among
  the sources are parameters of the model:
  \<^item> \<open>is_primary\<close> (of a wallet), \<open>is_stripe_primary\<close> (of an asset),
    \<open>get_authority_delegation\<close> and \<open>get_wallet\<close> (of a card), \<open>accepted_assets\<close> (of a place);
  \<^item> \<open>save_tokens\<close>: what \<open>Transaction.save\<close> does to the table of tokens when a transaction
    is created (the application of the balances), or the exception it raises;
  \<^item> \<open>verify_hash\<close>: \<open>transaction.verify_hash()\<close>, given the ledger the transaction was
    appended to;
  \<^item> \<open>get_or_create_user\<close>: from an e-mail address, the caller's address and an optional
    wallet key, the user and the new table of users, or an exception.
\<close>

record models =
  is_primary :: "nat \<Rightarrow> bool"
  is_stripe_primary :: "asset \<Rightarrow> bool"
  get_authority_delegation :: "card \<Rightarrow> nat list"
  get_wallet :: "card \<Rightarrow> nat"
  accepted_assets :: "place \<Rightarrow> nat list"
  save_tokens :: "tx \<Rightarrow> token list \<Rightarrow> exn + token list"
  verify_hash :: "tx list \<Rightarrow> tx \<Rightarrow> bool"
  get_or_create_user ::
    "string \<Rightarrow> string option \<Rightarrow> nat option \<Rightarrow> fedow_user list \<Rightarrow> exn + fedow_user \<times> fedow_user list"

text \<open>
  \<open>Model.objects.get(...)\<close>: the one row that satisfies the lookup; \<open>DoesNotExist\<close> when there
  is none, \<open>MultipleObjectsReturned\<close> when there are several.
\<close>

definition objects_get :: "('a \<Rightarrow> bool) \<Rightarrow> 'a list \<Rightarrow> exn + 'a" where
  "objects_get P rows =
     (case filter P rows of
        [] \<Rightarrow> Inl DoesNotExist
      | [x] \<Rightarrow> Inr x
      | _ \<Rightarrow> Inl MultipleObjectsReturned)"

text \<open>
  Modelled from the spec: \<open>Transaction.objects.create(**fields)\<close> runs \<open>Transaction.save\<close>,
  which is not among the sources. By sections 3 and 4.3 of the specification, creating a
  transaction applies its balances to the tokens and appends the row to the ledger, and
  writes no other table. What it does to the tokens is the parameter \<open>save_tokens\<close>; when
  that raises, nothing is written.
\<close>

definition Transaction_create :: "models \<Rightarrow> tx \<Rightarrow> db \<Rightarrow> exn + db" where
  "Transaction_create M t d =
     (case save_tokens M t (tokens d) of
        Inl e \<Rightarrow> Inl e
      | Inr toks \<Rightarrow> Inr (d\<lparr>tokens := toks, ledger := ledger d @ [t]\<rparr>))"

text \<open>
  The reverse relations of a wallet: \<open>getattr(wallet, 'user', None)\<close> is the user whose
  wallet it is, \<open>wallet.card_ephemere\<close> the card that holds it as its ephemeral wallet; each
  is read as \<open>None\<close> when no row refers to the wallet.
\<close>

definition wallet_user :: "db \<Rightarrow> nat \<Rightarrow> fedow_user option" where
  "wallet_user d w = find (\<lambda>u. u_wallet u = w) (users d)"

definition wallet_card_ephemere :: "db \<Rightarrow> nat \<Rightarrow> card option" where
  "wallet_card_ephemere d w = find (\<lambda>c. c_wallet_ephemere c = Some w) (cards d)"


section \<open>serializers.py: TransactionW2W\<close>

text \<open>
  The validated fields of a wallet-to-wallet request (\<open>attrs\<close>): the related fields hold the
  rows their keys resolve to; an optional field that is absent is \<open>None\<close>.
\<close>

record w2w =
  w_amount :: int
  w_sender :: nat
  w_receiver :: nat
  w_asset :: asset
  w_subscription_start_datetime :: "string option"
  w_action :: "action option"
  w_comment :: "string option"
  w_metadata :: "string option"
  w_checkout_stripe :: "nat option"
  w_primary_card_uuid :: "card option"
  w_primary_card_fisrtTagId :: "card option"
  w_user_card_uuid :: "card option"
  w_user_card_firstTagId :: "card option"

text \<open>Python's \<open>a or b\<close> on two optional rows (a row is true, \<open>None\<close> is false).\<close>

definition py_or :: "'a option \<Rightarrow> 'a option \<Rightarrow> 'a option" where
  "py_or a b = (case a of None \<Rightarrow> b | Some x \<Rightarrow> Some x)"

definition primary_card :: "w2w \<Rightarrow> card option" where
  "primary_card at = py_or (w_primary_card_uuid at) (w_primary_card_fisrtTagId at)"

definition user_card :: "w2w \<Rightarrow> card option" where
  "user_card at = py_or (w_user_card_uuid at) (w_user_card_firstTagId at)"

definition validate_amount :: "int \<Rightarrow> exn + int" where
  "validate_amount v =
     (if v \<le> 0 then Inl (ValidationError ''Amount must be positive'') else Inr v)"

text \<open>
  The condition that \<open>get_action\<close> and \<open>validate\<close> both test: a refill paid through the
  payment processor.
\<close>

definition stripe_refill :: "models \<Rightarrow> w2w \<Rightarrow> bool" where
  "stripe_refill M at \<longleftrightarrow>
     w_action at = Some REFILL \<and> w_checkout_stripe at \<noteq> None \<and>
     is_primary M (w_sender at) \<and> is_stripe_primary M (w_asset at)"

definition no_action_authorized :: "exn + action" where
  "no_action_authorized = Inl (ValidationError ''No action authorized'')"

definition get_action :: "models \<Rightarrow> db \<Rightarrow> place \<Rightarrow> w2w \<Rightarrow> exn + action" where
  "get_action M d pl at =
     (if stripe_refill M at then Inr REFILL
      else if p_wallet pl = w_sender at then
        (if a_category (w_asset at) = SUBSCRIPTION then Inr SUBSCRIBE
         else if a_category (w_asset at) = BADGE_ASSET then Inr BADGE
         else if w_sender at = w_receiver at then
           (if a_wallet_origin (w_asset at) = p_wallet pl
            then Inl (ValidationError
                   ''no longuer implemented for REFILL. Send user wallet instead'')
            else Inl (ValidationError ''Unauthorized wallet_origin''))
         else if primary_card at = None \<or> user_card at = None
         then Inl (ValidationError
                ''Primary card and user card are required for refill transaction'')
         else Inr REFILL)
      else if p_wallet pl = w_receiver at then
        (case primary_card at of
           None \<Rightarrow> Inl (ValidationError ''Primary card is required for sale transaction'')
         | Some pc \<Rightarrow>
             if c_uuid pc \<notin> set (p_primary_cards pl)
             then Inl (ValidationError ''Primary card must be in place primary cards'')
             else
               (case user_card at of
                  None \<Rightarrow> Inl (ValidationError ''User card is required for sale transaction'')
                | Some uc \<Rightarrow>
                    if w_receiver at \<notin> set (get_authority_delegation M uc)
                    then Inl (ValidationError ''Unauthorized'')
                    else if a_uuid (w_asset at) \<notin> set (accepted_assets M pl)
                    then Inl (ValidationError ''Asset not accepted'')
                    else Inr SALE))
      else if w_action at = Some FUSION then
        (case wallet_user d (w_sender at) of
           Some _ \<Rightarrow> no_action_authorized
         | None \<Rightarrow>
             (case wallet_card_ephemere d (w_sender at) of
                None \<Rightarrow> no_action_authorized
              | Some c \<Rightarrow>
                  (case wallet_user d (w_receiver at) of
                     None \<Rightarrow> no_action_authorized
                   | Some _ \<Rightarrow>
                       if p_uuid (c_origin_place c) = p_uuid pl then Inr FUSION
                       else no_action_authorized)))
      else no_action_authorized)"

text \<open>
  The place of \<open>validate\<close>: the one attached to the request or, for a refill paid through
  the payment processor, the place of origin of the user card (reading \<open>origin\<close> on a missing card
  raises \<open>AttributeError\<close>).
\<close>

definition resolve_place :: "models \<Rightarrow> request \<Rightarrow> w2w \<Rightarrow> exn + place" where
  "resolve_place M rq at =
     (case r_place rq of
        Some pl \<Rightarrow> Inr pl
      | None \<Rightarrow>
          if stripe_refill M at
          then (case user_card at of
                  None \<Rightarrow> Inl AttributeError
                | Some uc \<Rightarrow> Inr (c_origin_place uc))
          else Inl (ValidationError ''Place not found''))"

text \<open>
  \<open>Token.objects.get(wallet=self.sender, asset=self.asset)\<close> and the balance check. The
  \<open>except\<close> clause catches \<open>Token.DoesNotExist\<close> only.
\<close>

definition token_of :: "nat \<Rightarrow> asset \<Rightarrow> token \<Rightarrow> bool" where
  "token_of w a t \<longleftrightarrow> t_wallet t = w \<and> a_uuid (t_asset t) = a_uuid a"

definition get_token_sender :: "w2w \<Rightarrow> action \<Rightarrow> db \<Rightarrow> exn + token" where
  "get_token_sender at act d =
     (case objects_get (token_of (w_sender at) (w_asset at)) (tokens d) of
        Inl e \<Rightarrow>
          if e = DoesNotExist then Inl (ValidationError ''Sender token does not exist'')
          else Inl e
      | Inr token_sender \<Rightarrow>
          if t_value token_sender < w_amount at \<and> (act = SALE \<or> act = TRANSFER)
          then Inl (ValidationError ''Not enough token on sender wallet'')
          else Inr token_sender)"

definition get_or_create_token_receiver :: "w2w \<Rightarrow> db \<Rightarrow> exn + db" where
  "get_or_create_token_receiver at d =
     (case objects_get (token_of (w_receiver at) (w_asset at)) (tokens d) of
        Inr _ \<Rightarrow> Inr d
      | Inl e \<Rightarrow>
          if e = DoesNotExist
          then Inr (d\<lparr>tokens := tokens d @
                 [\<lparr>t_wallet = w_receiver at, t_asset = w_asset at, t_value = 0\<rparr>]\<rparr>)
          else Inl e)"

definition crea_transac_dict :: "request \<Rightarrow> w2w \<Rightarrow> tx" where
  "crea_transac_dict rq at =
     \<lparr> tx_ip = get_request_ip rq,
       tx_checkout_stripe = w_checkout_stripe at,
       tx_sender = w_sender at,
       tx_receiver = w_sender at,
       tx_asset = w_asset at,
       tx_amount = w_amount at,
       tx_action = CREATION,
       tx_comment = w_comment at,
       tx_metadata = w_metadata at,
       tx_primary_card = primary_card at,
       tx_card = user_card at,
       tx_subscription_start_datetime = None \<rparr>"

definition transaction_dict :: "request \<Rightarrow> w2w \<Rightarrow> action \<Rightarrow> tx" where
  "transaction_dict rq at act =
     \<lparr> tx_ip = get_request_ip rq,
       tx_checkout_stripe = w_checkout_stripe at,
       tx_sender = w_sender at,
       tx_receiver = w_receiver at,
       tx_asset = w_asset at,
       tx_amount = w_amount at,
       tx_action = act,
       tx_comment = w_comment at,
       tx_metadata = w_metadata at,
       tx_primary_card = primary_card at,
       tx_card = user_card at,
       tx_subscription_start_datetime = w_subscription_start_datetime at \<rparr>"

text \<open>
  \<open>Transaction.objects.create\<close> followed by \<open>if not transaction.verify_hash(): raise\<close>. When
  the hash is refused the row has been written already; the error is raised all the same.
\<close>

definition create_and_verify :: "models \<Rightarrow> tx \<Rightarrow> db \<Rightarrow> (exn + tx) \<times> db" where
  "create_and_verify M t d =
     (case Transaction_create M t d of
        Inl e \<Rightarrow> (Inl e, d)
      | Inr d' \<Rightarrow>
          if \<not> verify_hash M (ledger d') t
          then (Inl (ValidationError ''Transaction hash is not valid''), d')
          else (Inr t, d'))"

text \<open>
  \<open>TransactionW2W.validate\<close>: the result is the exception raised or the transaction kept in
  \<open>self.transaction\<close>, with the database as the call leaves it. The test \<open>if not action\<close> of
  the source cannot fire: \<open>get_action\<close> returns an action constant or raises.
\<close>

definition validate :: "models \<Rightarrow> request \<Rightarrow> w2w \<Rightarrow> db \<Rightarrow> (exn + tx) \<times> db" where
  "validate M rq at d =
     (case resolve_place M rq at of
        Inl e \<Rightarrow> (Inl e, d)
      | Inr pl \<Rightarrow>
     (case get_action M d pl at of
        Inl e \<Rightarrow> (Inl e, d)
      | Inr act \<Rightarrow>
     if p_wallet pl \<noteq> w_sender at \<and> p_wallet pl \<noteq> w_receiver at \<and>
        \<not> is_stripe_primary M (w_asset at) \<and> act \<noteq> FUSION
     then (Inl (ValidationError ''Unauthorized''), d)
     else
     (case get_token_sender at act d of
        Inl e \<Rightarrow> (Inl e, d)
      | Inr _ \<Rightarrow>
     (case get_or_create_token_receiver at d of
        Inl e \<Rightarrow> (Inl e, d)
      | Inr d1 \<Rightarrow>
     if act = REFILL
     then (case create_and_verify M (crea_transac_dict rq at) d1 of
             (Inl e, d2) \<Rightarrow> (Inl e, d2)
           | (Inr _, d2) \<Rightarrow> create_and_verify M (transaction_dict rq at act) d2)
     else create_and_verify M (transaction_dict rq at act) d1))))"

text \<open>
  \<open>is_valid()\<close>: the field validators run first (the only one the serializer defines is
  \<open>validate_amount\<close>), then \<open>validate\<close>.
\<close>

definition is_valid :: "models \<Rightarrow> request \<Rightarrow> w2w \<Rightarrow> db \<Rightarrow> (exn + tx) \<times> db" where
  "is_valid M rq at d =
     (case validate_amount (w_amount at) of
        Inl e \<Rightarrow> (Inl e, d)
      | Inr _ \<Rightarrow> validate M rq at d)"


section \<open>serializers.py: BadgeValidator\<close>

text \<open>
  The serializer has no amount field. Its field validators load the two cards
  (\<open>self.card\<close>, \<open>self.primary_card\<close>); \<open>validate\<close> creates the transaction itself, with the
  amount and the action written in the source. \<open>request.place.wallet\<close> raises
  \<open>AttributeError\<close> when the request has no place.
\<close>

record badge =
  b_card :: card
  b_primary_card :: card
  b_asset :: asset
  b_initial_data :: string

definition badge_transaction_dict :: "models \<Rightarrow> request \<Rightarrow> place \<Rightarrow> badge \<Rightarrow> tx" where
  "badge_transaction_dict M rq pl b =
     \<lparr> tx_ip = get_request_ip rq,
       tx_checkout_stripe = None,
       tx_sender = get_wallet M (b_card b),
       tx_receiver = p_wallet pl,
       tx_asset = b_asset b,
       tx_amount = 0,
       tx_action = BADGE,
       tx_comment = None,
       tx_metadata = Some (b_initial_data b),
       tx_primary_card = Some (b_primary_card b),
       tx_card = Some (b_card b),
       tx_subscription_start_datetime = None \<rparr>"

definition badge_validate :: "models \<Rightarrow> request \<Rightarrow> badge \<Rightarrow> db \<Rightarrow> (exn + tx) \<times> db" where
  "badge_validate M rq b d =
     (case r_place rq of
        None \<Rightarrow> (Inl AttributeError, d)
      | Some pl \<Rightarrow>
          (case Transaction_create M (badge_transaction_dict M rq pl b) d of
             Inl e \<Rightarrow> (Inl e, d)
           | Inr d' \<Rightarrow> (Inr (badge_transaction_dict M rq pl b), d')))"

section \<open>serializers.py: CardRefundOrVoidValidator\<close>

record refund_or_void =
  rv_primary_card_uuid :: "card option"
  rv_primary_card_fisrtTagId :: "card option"
  rv_user_card_uuid :: "card option"
  rv_user_card_firstTagId :: "card option"
  rv_action :: "action option"

definition validate_action :: "action \<Rightarrow> exn + action" where
  "validate_action v =
     (if v \<noteq> REFUND \<and> v \<noteq> VOID
      then Inl (ValidationError ''Action must be REFUND or VOID'') else Inr v)"

text \<open>
  The lookup of the loop: \<open>wallet.tokens.filter(value__gt=0,
  asset__wallet_origin=request.place.wallet, asset__category__in=[Asset.TOKEN_LOCAL_FIAT,
  Asset.TOKEN_LOCAL_NOT_FIAT])\<close>.
\<close>

definition refund_filter :: "place \<Rightarrow> nat \<Rightarrow> token \<Rightarrow> bool" where
  "refund_filter pl wallet t \<longleftrightarrow>
     t_wallet t = wallet \<and> 0 < t_value t \<and>
     a_wallet_origin (t_asset t) = p_wallet pl \<and>
     (a_category (t_asset t) = TOKEN_LOCAL_FIAT \<or> a_category (t_asset t) = TOKEN_LOCAL_NOT_FIAT)"

definition refund_transaction_dict ::
    "models \<Rightarrow> request \<Rightarrow> place \<Rightarrow> card option \<Rightarrow> card \<Rightarrow> token \<Rightarrow> tx" where
  "refund_transaction_dict M rq pl pc uc t =
     \<lparr> tx_ip = get_request_ip rq,
       tx_checkout_stripe = None,
       tx_sender = get_wallet M uc,
       tx_receiver = p_wallet pl,
       tx_asset = t_asset t,
       tx_amount = t_value t,
       tx_action = REFUND,
       tx_comment = None,
       tx_metadata = None,
       tx_primary_card = pc,
       tx_card = Some uc,
       tx_subscription_start_datetime = None \<rparr>"

text \<open>
  The \<open>for\<close> loop over the tokens the lookup returned (read once, when the loop starts). An
  exception of \<open>Transaction.objects.create\<close> leaves the loop; the transactions created
  before it stay.
\<close>

fun refund_loop ::
    "models \<Rightarrow> request \<Rightarrow> place \<Rightarrow> card option \<Rightarrow> card \<Rightarrow> token list \<Rightarrow> db \<Rightarrow> (exn + tx list) \<times> db" where
  "refund_loop M rq pl pc uc [] d = (Inr [], d)"
| "refund_loop M rq pl pc uc (t # ts) d =
     (case Transaction_create M (refund_transaction_dict M rq pl pc uc t) d of
        Inl e \<Rightarrow> (Inl e, d)
      | Inr d' \<Rightarrow>
          (case refund_loop M rq pl pc uc ts d' of
             (Inl e, d'') \<Rightarrow> (Inl e, d'')
           | (Inr txs, d'') \<Rightarrow> (Inr (refund_transaction_dict M rq pl pc uc t # txs), d'')))"

text \<open>\<open>card.save()\<close>: the row with the card's key is replaced, or inserted when there is none.\<close>

definition card_save :: "card \<Rightarrow> db \<Rightarrow> db" where
  "card_save c d =
     (if \<exists>r \<in> set (cards d). c_uuid r = c_uuid c
      then d\<lparr>cards := map (\<lambda>r. if c_uuid r = c_uuid c then c else r) (cards d)\<rparr>
      else d\<lparr>cards := cards d @ [c]\<rparr>)"

text \<open>
  \<open>CardRefundOrVoidValidator.validate\<close>; the result is \<open>self.transactions\<close>. (The two
  serializer calls of the source, \<open>WalletSerializer(...).data\<close> and
  \<open>TransactionSerializer(...).data\<close>, only read.)
\<close>

definition refund_or_void_validate ::
    "models \<Rightarrow> request \<Rightarrow> refund_or_void \<Rightarrow> db \<Rightarrow> (exn + tx list) \<times> db" where
  "refund_or_void_validate M rq at d =
     (case r_place rq of
        None \<Rightarrow> (Inl AttributeError, d)
      | Some pl \<Rightarrow>
          let pc = py_or (rv_primary_card_uuid at) (rv_primary_card_fisrtTagId at);
              ucard = py_or (rv_user_card_uuid at) (rv_user_card_firstTagId at)
          in
          if (case pc of None \<Rightarrow> True | Some c \<Rightarrow> c_uuid c \<notin> set (p_primary_cards pl))
          then (Inl (ValidationError ''Primary card must be in place primary cards''), d)
          else
            (case ucard of
               None \<Rightarrow> (Inl (ValidationError ''User card is required for void or refund''), d)
             | Some uc \<Rightarrow>
                 (case refund_loop M rq pl pc uc
                         (filter (refund_filter pl (get_wallet M uc)) (tokens d)) d of
                    (Inl e, d') \<Rightarrow> (Inl e, d')
                  | (Inr txs, d') \<Rightarrow>
                      if rv_action at = Some VOID
                      then (Inr txs, card_save (uc\<lparr>c_user := None, c_wallet_ephemere := None\<rparr>) d')
                      else (Inr txs, d'))))"

section \<open>serializers.py: WalletCreateSerializer\<close>

record wallet_create =
  wc_email :: string
  wc_card_first_tag_id :: "card option"
  wc_card_qrcode_uuid :: "card option"

text \<open>
  The data handed to \<open>TransactionW2W\<close> for one token of the ephemeral wallet. The keys in
  it are those of rows just read, so each related field resolves to the row it was read
  from.
\<close>

definition fusion_data :: "card \<Rightarrow> nat \<Rightarrow> fedow_user \<Rightarrow> token \<Rightarrow> w2w" where
  "fusion_data c eph u t =
     \<lparr> w_amount = t_value t,
       w_sender = eph,
       w_receiver = u_wallet u,
       w_asset = t_asset t,
       w_subscription_start_datetime = None,
       w_action = Some FUSION,
       w_comment = None,
       w_metadata = None,
       w_checkout_stripe = None,
       w_primary_card_uuid = None,
       w_primary_card_fisrtTagId = None,
       w_user_card_uuid = Some c,
       w_user_card_firstTagId = None \<rparr>"

text \<open>
  The \<open>for\<close> loop of the fusion: one \<open>TransactionW2W\<close> per token that was positive when the
  loop started; the first one that is not valid raises. \<open>rqo\<close> is
  \<open>self.context.get('request')\<close>; the loop body reads \<open>self.context['request']\<close>, which
  raises \<open>KeyError\<close> when the serializer has no request.
\<close>

fun fusion_loop ::
    "models \<Rightarrow> request option \<Rightarrow> card \<Rightarrow> nat \<Rightarrow> fedow_user \<Rightarrow> token list \<Rightarrow> db \<Rightarrow> (exn + unit) \<times> db" where
  "fusion_loop M rqo c eph u [] d = (Inr (), d)"
| "fusion_loop M rqo c eph u (t # ts) d =
     (case rqo of
        None \<Rightarrow> (Inl KeyError, d)
      | Some rq \<Rightarrow>
          (case is_valid M rq (fusion_data c eph u t) d of
             (Inl e, d') \<Rightarrow> (Inl e, d')
           | (Inr _, d') \<Rightarrow> fusion_loop M rqo c eph u ts d'))"

definition positive_tokens :: "nat \<Rightarrow> db \<Rightarrow> token list" where
  "positive_tokens w d = filter (\<lambda>t. t_wallet t = w \<and> 0 < t_value t) (tokens d)"

text \<open>
  The branch of \<open>validate\<close> for a card without user that holds the ephemeral wallet \<open>eph\<close>,
  claimed by the existing user \<open>u\<close>: the transfers, then \<open>card.refresh_from_db()\<close>, the test
  that the ephemeral wallet is empty, and the update of the card.
\<close>

definition fusion ::
    "models \<Rightarrow> request option \<Rightarrow> card \<Rightarrow> nat \<Rightarrow> fedow_user \<Rightarrow> db \<Rightarrow> (exn + fedow_user) \<times> db" where
  "fusion M rqo c eph u d =
     (case (if eph \<noteq> u_wallet u
            then fusion_loop M rqo c eph u (positive_tokens eph d) d
            else (Inr (), d)) of
        (Inl e, d') \<Rightarrow> (Inl e, d')
      | (Inr _, d') \<Rightarrow>
          (case objects_get (\<lambda>r. c_uuid r = c_uuid c) (cards d') of
             Inl e \<Rightarrow> (Inl e, d')
           | Inr c' \<Rightarrow>
               (case c_wallet_ephemere c' of
                  None \<Rightarrow> (Inl AttributeError, d')
                | Some eph' \<Rightarrow>
                    if positive_tokens eph' d' \<noteq> []
                    then (Inl (ValidationError ''Wallet ephemere not empty after fusion''), d')
                    else (Inr u, card_save (c'\<lparr>c_wallet_ephemere := None, c_user := Some (u_uuid u)\<rparr>) d'))))"

text \<open>
  The branch of \<open>validate\<close> for a card and an e-mail address that no user has: the card is
  linked to a new user when it has no user yet; the new user takes over the ephemeral
  wallet when there is one.
\<close>

definition link_new_user ::
    "models \<Rightarrow> string \<Rightarrow> string option \<Rightarrow> card \<Rightarrow> db \<Rightarrow> (exn + fedow_user) \<times> db" where
  "link_new_user M email ip c d =
     (if c_user c = None \<and> c_wallet_ephemere c = None then
        (case get_or_create_user M email ip None (users d) of
           Inl e \<Rightarrow> (Inl e, d)
         | Inr (u, us) \<Rightarrow>
             (Inr u, card_save (c\<lparr>c_user := Some (u_uuid u)\<rparr>) (d\<lparr>users := us\<rparr>)))
      else if c_user c = None then
        (case get_or_create_user M email ip (c_wallet_ephemere c) (users d) of
           Inl e \<Rightarrow> (Inl e, d)
         | Inr (u, us) \<Rightarrow>
             (Inr u, card_save (c\<lparr>c_user := Some (u_uuid u), c_wallet_ephemere := None\<rparr>)
                       (d\<lparr>users := us\<rparr>)))
      else (Inl (ValidationError ''Card already linked to another user''), d))"

text \<open>
  \<open>WalletCreateSerializer.validate\<close>; the result is \<open>self.user\<close>. \<open>rqo\<close> is
  \<open>self.context.get('request')\<close>.
\<close>

definition wallet_create_validate ::
    "models \<Rightarrow> request option \<Rightarrow> wallet_create \<Rightarrow> db \<Rightarrow> (exn + fedow_user) \<times> db" where
  "wallet_create_validate M rqo at d =
     (let ip = (case rqo of None \<Rightarrow> None | Some rq \<Rightarrow> get_request_ip rq);
          email = wc_email at;
          user_exist = (filter (\<lambda>u. u_email u = email) (users d) \<noteq> []);
          cardo = py_or (wc_card_first_tag_id at) (wc_card_qrcode_uuid at)
      in
      if \<not> user_exist then
        (case cardo of
           None \<Rightarrow>
             (case get_or_create_user M email ip None (users d) of
                Inl e \<Rightarrow> (Inl e, d)
              | Inr (u, us) \<Rightarrow> (Inr u, d\<lparr>users := us\<rparr>))
         | Some c \<Rightarrow> link_new_user M email ip c d)
      else
        (case objects_get (\<lambda>u. u_email u = email) (users d) of
           Inl e \<Rightarrow> (Inl e, d)
         | Inr u \<Rightarrow>
             (case cardo of
                None \<Rightarrow> (Inl (ValidationError ''User not found ?''), d)
              | Some c \<Rightarrow>
                  (case c_user c of
                     None \<Rightarrow>
                       (case c_wallet_ephemere c of
                          None \<Rightarrow> (Inr u, card_save (c\<lparr>c_user := Some (u_uuid u)\<rparr>) d)
                        | Some eph \<Rightarrow> fusion M rqo c eph u d)
                   | Some cu \<Rightarrow>
                       if cu = u_uuid u then (Inr u, d)
                       else (Inl (ValidationError ''Card already linked to another user''), d)))))"


section \<open>A concrete federation\<close>

text \<open>
  Modelled from the spec: the balances a created transaction applies
  (\<open>Transaction.save\<close> is not among the sources). Section 4.3: a \<open>CREATION\<close> increases the
  supply in the minting wallet; every other action debits the sender's token and credits
  the receiver's.
\<close>

definition credit :: "nat \<Rightarrow> asset \<Rightarrow> int \<Rightarrow> token list \<Rightarrow> token list" where
  "credit w a n toks = map (\<lambda>t. if token_of w a t then t\<lparr>t_value := t_value t + n\<rparr> else t) toks"

definition spec_save_tokens :: "tx \<Rightarrow> token list \<Rightarrow> exn + token list" where
  "spec_save_tokens t toks =
     (if tx_action t = CREATION
      then Inr (credit (tx_receiver t) (tx_asset t) (tx_amount t) toks)
      else Inr (credit (tx_receiver t) (tx_asset t) (tx_amount t)
                 (credit (tx_sender t) (tx_asset t) (- tx_amount t) toks)))"

text \<open>
  The scenario of section 8 of the specification: the place P with wallet 10 and primary
  card 100; the user U (wallet 11) with card 101; the user U2 (wallet 12); the card 102
  without user, holding the ephemeral wallet 30; the asset LOCAL created by P, a
  subscription and a badge asset of P, and the externally backed asset of the primary
  wallet 99, which P accepts as well.
\<close>

definition place_P :: place where
  "place_P = \<lparr> p_uuid = 1, p_wallet = 10, p_primary_cards = [100] \<rparr>"

definition asset_LOCAL :: asset where
  "asset_LOCAL = \<lparr> a_uuid = 50, a_category = TOKEN_LOCAL_NOT_FIAT, a_wallet_origin = 10 \<rparr>"

definition asset_EXTERNAL :: asset where
  "asset_EXTERNAL = \<lparr> a_uuid = 51, a_category = EXTERNAL_PRIMARY, a_wallet_origin = 99 \<rparr>"

definition asset_MEMBERSHIP :: asset where
  "asset_MEMBERSHIP = \<lparr> a_uuid = 52, a_category = SUBSCRIPTION, a_wallet_origin = 10 \<rparr>"

definition asset_BADGE :: asset where
  "asset_BADGE = \<lparr> a_uuid = 53, a_category = BADGE_ASSET, a_wallet_origin = 10 \<rparr>"

definition card_C1 :: card where
  "card_C1 = \<lparr> c_uuid = 100, c_user = None, c_wallet_ephemere = None, c_origin_place = place_P \<rparr>"

definition card_C2 :: card where
  "card_C2 = \<lparr> c_uuid = 101, c_user = Some 200, c_wallet_ephemere = None, c_origin_place = place_P \<rparr>"

definition card_C3 :: card where
  "card_C3 = \<lparr> c_uuid = 102, c_user = None, c_wallet_ephemere = Some 30, c_origin_place = place_P \<rparr>"

definition user_U :: fedow_user where
  "user_U = \<lparr> u_uuid = 200, u_email = ''u@example.org'', u_wallet = 11 \<rparr>"

definition user_U2 :: fedow_user where
  "user_U2 = \<lparr> u_uuid = 201, u_email = ''u2@example.org'', u_wallet = 12 \<rparr>"

definition request_P :: request where
  "request_P =
     \<lparr> r_HTTP_X_FORWARDED_FOR = None, r_HTTP_X_REAL_IP = None,
       r_REMOTE_ADDR = Some ''192.0.2.1'', r_place = Some place_P \<rparr>"

definition models_P :: models where
  "models_P =
     \<lparr> is_primary = (\<lambda>w. w = 99),
       is_stripe_primary = (\<lambda>a. a_uuid a = 51),
       get_authority_delegation = (\<lambda>c. [10]),
       get_wallet =
         (\<lambda>c. case c_user c of
                 Some k \<Rightarrow> (if k = 200 then 11 else 12)
               | None \<Rightarrow> (case c_wallet_ephemere c of Some w \<Rightarrow> w | None \<Rightarrow> 0)),
       accepted_assets = (\<lambda>pl. [50, 51, 52, 53]),
       save_tokens = spec_save_tokens,
       verify_hash = (\<lambda>l t. True),
       get_or_create_user =
         (\<lambda>email ip w us.
            Inr (\<lparr> u_uuid = 300, u_email = email, u_wallet = (case w of Some k \<Rightarrow> k | None \<Rightarrow> 13) \<rparr>,
                 us @ [\<lparr> u_uuid = 300, u_email = email,
                         u_wallet = (case w of Some k \<Rightarrow> k | None \<Rightarrow> 13) \<rparr>])) \<rparr>"

definition tok :: "nat \<Rightarrow> asset \<Rightarrow> int \<Rightarrow> token" where
  "tok w a v = \<lparr> t_wallet = w, t_asset = a, t_value = v \<rparr>"

definition db_P :: db where
  "db_P =
     \<lparr> tokens = [tok 10 asset_LOCAL 0, tok 11 asset_LOCAL 6, tok 30 asset_LOCAL 5,
                 tok 11 asset_EXTERNAL 7, tok 11 asset_MEMBERSHIP 1],
       ledger = [],
       cards = [card_C1, card_C2, card_C3],
       users = [user_U, user_U2] \<rparr>"

text \<open>A wallet-to-wallet request with the optional fields absent.\<close>

definition request_of :: "nat \<Rightarrow> nat \<Rightarrow> asset \<Rightarrow> int \<Rightarrow> w2w" where
  "request_of s r a n =
     \<lparr> w_amount = n, w_sender = s, w_receiver = r, w_asset = a,
       w_subscription_start_datetime = None, w_action = None, w_comment = None,
       w_metadata = None, w_checkout_stripe = None,
       w_primary_card_uuid = None, w_primary_card_fisrtTagId = None,
       w_user_card_uuid = None, w_user_card_firstTagId = None \<rparr>"

definition with_cards :: "w2w \<Rightarrow> w2w" where
  "with_cards at = at\<lparr> w_primary_card_uuid := Some card_C1, w_user_card_uuid := Some card_C2 \<rparr>"


text \<open>Requests of the other serializers in this federation.\<close>

definition refund_of :: "card \<Rightarrow> action option \<Rightarrow> refund_or_void" where
  "refund_of uc a =
     \<lparr> rv_primary_card_uuid = Some card_C1, rv_primary_card_fisrtTagId = None,
       rv_user_card_uuid = Some uc, rv_user_card_firstTagId = None, rv_action = a \<rparr>"

definition claim_card :: "string \<Rightarrow> card \<Rightarrow> wallet_create" where
  "claim_card email c =
     \<lparr> wc_email = email, wc_card_first_tag_id = Some c, wc_card_qrcode_uuid = None \<rparr>"

definition badge_of :: "card \<Rightarrow> badge" where
  "badge_of c =
     \<lparr> b_card = c, b_primary_card = card_C1, b_asset = asset_BADGE, b_initial_data = ''{}'' \<rparr>"

text \<open>
  The refill of section 8 (the place P tops up the wallet of U by 10), and a model layer
  whose hashes never verify.
\<close>

definition refill_10 :: w2w where
  "refill_10 = with_cards (request_of 10 11 asset_LOCAL 10)"

definition models_bad_hash :: models where
  "models_bad_hash = models_P\<lparr>verify_hash := (\<lambda>l t. False)\<rparr>"

section \<open>Evaluation and general facts\<close>

lemmas world_defs =
  place_P_def asset_LOCAL_def asset_EXTERNAL_def asset_MEMBERSHIP_def asset_BADGE_def
  card_C1_def card_C2_def card_C3_def user_U_def user_U2_def request_P_def models_P_def
  tok_def db_P_def request_of_def with_cards_def spec_save_tokens_def credit_def

lemmas code_defs =
  truthy_def get_request_ip_def objects_get_def Transaction_create_def wallet_user_def
  wallet_card_ephemere_def py_or_def primary_card_def user_card_def validate_amount_def
  stripe_refill_def no_action_authorized_def get_action_def resolve_place_def token_of_def
  get_token_sender_def get_or_create_token_receiver_def crea_transac_dict_def
  transaction_dict_def create_and_verify_def validate_def is_valid_def card_save_def Let_def

lemma pair_of_fst: "fst p = a \<Longrightarrow> p = (a, snd p)"
  by (cases p) simp

lemma objects_get_Inr: "objects_get P rows = Inr x \<longleftrightarrow> filter P rows = [x]"
  by (auto simp: objects_get_def split: list.splits)

lemma Transaction_create_Inr:
  "Transaction_create M t d = Inr d' \<Longrightarrow>
     ledger d' = ledger d @ [t] \<and> cards d' = cards d \<and> users d' = users d \<and>
     save_tokens M t (tokens d) = Inr (tokens d')"
  by (auto simp: Transaction_create_def split: sum.splits)

lemma get_or_create_token_receiver_Inr:
  "get_or_create_token_receiver at d = Inr d1 \<Longrightarrow>
     ledger d1 = ledger d \<and> cards d1 = cards d \<and> users d1 = users d"
  by (auto simp: get_or_create_token_receiver_def split: sum.splits if_splits)

lemma create_and_verify_Inl_ledger:
  "create_and_verify M t d = (Inl e, d') \<Longrightarrow>
     ledger d' = ledger d \<or>
     (ledger d' = ledger d @ [t] \<and> \<not> verify_hash M (ledger d') t \<and>
        e = ValidationError ''Transaction hash is not valid'')"
  by (auto simp: create_and_verify_def Transaction_create_def split: sum.splits if_splits)

lemma create_and_verify_Inr_ledger:
  "create_and_verify M t d = (Inr t', d') \<Longrightarrow>
     t' = t \<and> ledger d' = ledger d @ [t] \<and> verify_hash M (ledger d') t"
  by (auto simp: create_and_verify_def Transaction_create_def split: sum.splits if_splits)

text \<open>
  Whatever \<open>get_action\<close> returns passes the test "the place is the sender or the receiver,
  unless the asset is the externally backed one or the action is \<open>FUSION\<close>" of \<open>validate\<close>:
  each rule of the classifier that returns an action has one of the four as its guard.
\<close>

lemma get_action_authorized:
  "get_action M d pl at = Inr act \<Longrightarrow>
     p_wallet pl = w_sender at \<or> p_wallet pl = w_receiver at \<or>
     is_stripe_primary M (w_asset at) \<or> act = FUSION"
  by (auto simp: get_action_def stripe_refill_def no_action_authorized_def
           split: if_splits option.splits)

lemma validate_classified:
  assumes "resolve_place M rq at = Inr pl" and "get_action M d pl at = Inr act"
  shows "validate M rq at d =
     (case get_token_sender at act d of
        Inl e \<Rightarrow> (Inl e, d)
      | Inr _ \<Rightarrow>
     (case get_or_create_token_receiver at d of
        Inl e \<Rightarrow> (Inl e, d)
      | Inr d1 \<Rightarrow>
     if act = REFILL
     then (case create_and_verify M (crea_transac_dict rq at) d1 of
             (Inl e, d2) \<Rightarrow> (Inl e, d2)
           | (Inr _, d2) \<Rightarrow> create_and_verify M (transaction_dict rq at act) d2)
     else create_and_verify M (transaction_dict rq at act) d1))"
  using assms get_action_authorized [OF assms(2)]
  by (auto simp: validate_def)

lemma validate_Inr:
  assumes "validate M rq at d = (Inr t, d')"
  shows "\<exists>pl act. resolve_place M rq at = Inr pl \<and> get_action M d pl at = Inr act \<and>
            t = transaction_dict rq at act"
  using assms
  by (auto simp: validate_def create_and_verify_def split: sum.splits if_splits prod.splits)

lemma validate_cards:
  assumes "validate M rq at d = (r, d')"
  shows "cards d' = cards d \<and> users d' = users d"
  using assms
  by (auto simp: validate_def create_and_verify_def Transaction_create_def
        get_or_create_token_receiver_def split: sum.splits if_splits prod.splits)

lemma wallet_user_tokens:
  "wallet_user (d\<lparr>tokens := toks\<rparr>) w = wallet_user d w"
  by (simp add: wallet_user_def)

lemma wallet_card_ephemere_tokens:
  "wallet_card_ephemere (d\<lparr>tokens := toks\<rparr>) w = wallet_card_ephemere d w"
  by (simp add: wallet_card_ephemere_def)

lemma get_action_tokens:
  "get_action M (d\<lparr>tokens := toks\<rparr>) pl at = get_action M d pl at"
  by (simp add: get_action_def wallet_user_tokens wallet_card_ephemere_tokens
        cong: option.case_cong)

lemma card_save_fields:
  "tokens (card_save c d) = tokens d" "ledger (card_save c d) = ledger d"
  "users (card_save c d) = users d"
  by (simp_all add: card_save_def)

lemma card_save_row:
  "(\<exists>r \<in> set (cards (card_save c d)). c_uuid r = c_uuid c) \<and>
   (\<forall>r \<in> set (cards (card_save c d)). c_uuid r = c_uuid c \<longrightarrow> r = c)"
  by (auto simp: card_save_def)

section \<open>Signature verification: which failures reach the caller\<close>

lemma except_InvalidSignature_Inl:
  "except_InvalidSignature e' = Inl e \<longleftrightarrow> e' = e \<and> e \<noteq> InvalidSignature"
  by (auto simp: except_InvalidSignature_def)

lemma except_InvalidSignature_Inr:
  "except_InvalidSignature e' = Inr b \<longleftrightarrow> e' = InvalidSignature \<and> \<not> b"
  by (auto simp: except_InvalidSignature_def)

text \<open>
  C1. The claim: for every key, message and signature, \<open>verify_signature\<close> returns a
  boolean, and a malformed key, a malformed signature and a mismatch all give \<open>False\<close>.
  The code catches \<open>InvalidSignature\<close> only. The theorem says exactly when an exception
  leaves \<open>verify_signature\<close>: whenever loading the key, decoding the signature or the
  verification raises anything but \<open>InvalidSignature\<close>. So the \<open>ValueError\<close> of a malformed
  key and the \<open>binascii.Error\<close> of a malformed signature reach the caller; only the
  mismatch is turned into \<open>False\<close>.
\<close>

theorem verify_signature_raises_iff:
  "verify_signature L public_key message signature = Inl e \<longleftrightarrow>
     e \<noteq> InvalidSignature \<and>
     (load_pem_public_key L public_key = Inl e \<or>
      (\<exists>k. load_pem_public_key L public_key = Inr k \<and>
         (urlsafe_b64decode L signature = Inl e \<or>
          (\<exists>s. urlsafe_b64decode L signature = Inr s \<and> pss_verify L k s message = Inl e))))"
  by (auto simp: verify_signature_def except_InvalidSignature_Inl split: sum.splits)

theorem verify_signature_raises_witness:
  "verify_signature toy_crypto ''not a PEM key'' ''message'' ''egassem'' = Inl ValueError \<and>
   verify_signature toy_crypto ''-----BEGIN PUBLIC KEY-----MIIB'' ''message'' ''egassem'' =
     Inl BinasciiError"
proof -
  have key: "load_pem_public_key toy_crypto ''not a PEM key'' = Inl ValueError"
    by (simp add: toy_crypto_def)
  have pem: "load_pem_public_key toy_crypto ''-----BEGIN PUBLIC KEY-----MIIB'' = Inr ''MIIB''"
    by (simp add: toy_crypto_def)
  have sig: "urlsafe_b64decode toy_crypto ''egassem'' = Inl BinasciiError"
    by (simp add: toy_crypto_def)
  have a: "verify_signature toy_crypto ''not a PEM key'' ''message'' ''egassem'' = Inl ValueError"
    using key by (subst verify_signature_raises_iff) simp
  have b: "verify_signature toy_crypto ''-----BEGIN PUBLIC KEY-----MIIB'' ''message'' ''egassem'' =
      Inl BinasciiError"
    using pem sig by (subst verify_signature_raises_iff) simp
  from a b show ?thesis by simp
qed


section \<open>The amount pre-check\<close>

text \<open>
  A request of the place P that sends its own badge asset with amount 0 and names the
  action \<open>BADGE\<close>: it classifies as \<open>BADGE\<close>, and \<open>is_valid\<close> rejects it for its amount.
\<close>

theorem badge_zero_amount_rejected:
  "get_action models_P db_P place_P ((request_of 10 11 asset_BADGE 0)\<lparr>w_action := Some BADGE\<rparr>) =
     Inr BADGE \<and>
   is_valid models_P request_P ((request_of 10 11 asset_BADGE 0)\<lparr>w_action := Some BADGE\<rparr>) db_P =
     (Inl (ValidationError ''Amount must be positive''), db_P)"
  by (simp add: world_defs code_defs)

text \<open>
  C2, as the code has it. \<open>validate_amount\<close> looks at the amount alone: a wallet-to-wallet
  request with an amount of zero or less is rejected with "Amount must be positive" whatever
  its action (a request that classifies as \<open>BADGE\<close> included), and one with a positive amount
  goes on to \<open>validate\<close>. The transaction with amount 0 and action \<open>BADGE\<close> is the one that
  \<open>BadgeValidator\<close> creates: it reads no amount from the request and writes 0 itself.
\<close>

theorem amount_precheck:
  "(w_amount at \<le> 0 \<longrightarrow>
      is_valid M rq at d = (Inl (ValidationError ''Amount must be positive''), d)) \<and>
   (0 < w_amount at \<longrightarrow> is_valid M rq at d = validate M rq at d) \<and>
   (badge_validate M rq b d = (Inr t, d') \<longrightarrow> tx_amount t = 0 \<and> tx_action t = BADGE)"
  by (auto simp: is_valid_def validate_amount_def badge_validate_def badge_transaction_dict_def
           split: option.splits sum.splits)

theorem amount_precheck_witness:
  "is_valid models_P request_P (with_cards (request_of 11 10 asset_LOCAL (- 4))) db_P =
     (Inl (ValidationError ''Amount must be positive''), db_P) \<and>
   is_valid models_P request_P (with_cards (request_of 11 10 asset_LOCAL 4)) db_P =
     validate models_P request_P (with_cards (request_of 11 10 asset_LOCAL 4)) db_P \<and>
   fst (badge_validate models_P request_P (badge_of card_C2) db_P) =
     Inr (badge_transaction_dict models_P request_P place_P (badge_of card_C2)) \<and>
   tx_amount (badge_transaction_dict models_P request_P place_P (badge_of card_C2)) = 0 \<and>
   tx_action (badge_transaction_dict models_P request_P place_P (badge_of card_C2)) = BADGE"
proof -
  let ?t = "badge_transaction_dict models_P request_P place_P (badge_of card_C2)"
  let ?X = "badge_validate models_P request_P (badge_of card_C2) db_P"
  have neg: "w_amount (with_cards (request_of 11 10 asset_LOCAL (- 4))) \<le> 0"
    by (simp add: world_defs)
  have pos: "0 < w_amount (with_cards (request_of 11 10 asset_LOCAL 4))"
    by (simp add: world_defs)
  have b: "fst ?X = Inr ?t"
    by (simp add: world_defs code_defs badge_of_def badge_transaction_dict_def
          badge_validate_def)
  from amount_precheck [of "with_cards (request_of 11 10 asset_LOCAL (- 4))" models_P request_P db_P]
    neg
  have 1: "is_valid models_P request_P (with_cards (request_of 11 10 asset_LOCAL (- 4))) db_P =
     (Inl (ValidationError ''Amount must be positive''), db_P)" by blast
  from amount_precheck [of "with_cards (request_of 11 10 asset_LOCAL 4)" models_P request_P db_P]
    pos
  have 2: "is_valid models_P request_P (with_cards (request_of 11 10 asset_LOCAL 4)) db_P =
     validate models_P request_P (with_cards (request_of 11 10 asset_LOCAL 4)) db_P" by blast
  from amount_precheck [of _ models_P request_P db_P "badge_of card_C2" ?t "snd ?X"]
    pair_of_fst [OF b]
  have 3: "tx_amount ?t = 0 \<and> tx_action ?t = BADGE" by blast
  from 1 2 3 b show ?thesis by blast
qed

section \<open>Classification when the place is the sender\<close>

text \<open>
  The place P names itself as sender and as receiver, with both cards, for the externally
  backed asset, which it did not create: no rule before the self-transfer test applies, and
  the request is rejected although both cards are there.
\<close>

theorem self_transfer_foreign_asset_rejected:
  "p_wallet place_P = w_sender (with_cards (request_of 10 10 asset_EXTERNAL 5)) \<and>
   \<not> stripe_refill models_P (with_cards (request_of 10 10 asset_EXTERNAL 5)) \<and>
   a_category (w_asset (with_cards (request_of 10 10 asset_EXTERNAL 5))) = EXTERNAL_PRIMARY \<and>
   a_wallet_origin (w_asset (with_cards (request_of 10 10 asset_EXTERNAL 5))) \<noteq> p_wallet place_P \<and>
   primary_card (with_cards (request_of 10 10 asset_EXTERNAL 5)) = Some card_C1 \<and>
   user_card (with_cards (request_of 10 10 asset_EXTERNAL 5)) = Some card_C2 \<and>
   get_action models_P db_P place_P (with_cards (request_of 10 10 asset_EXTERNAL 5)) =
     Inl (ValidationError ''Unauthorized wallet_origin'')"
  by (simp add: world_defs code_defs)

text \<open>
  C3, as the code has it. For a request whose sender is the wallet of the requesting place
  and that is not the refill paid through the payment processor: an asset of category \<open>SUBSCRIPTION\<close>
  classifies as \<open>SUBSCRIBE\<close> and one of category \<open>BADGE\<close> as \<open>BADGE\<close>; for any other asset a
  request with sender = receiver is rejected, whether the asset comes from this place's
  wallet or not (the two cases differ in the message only); and a request with sender
  \<noteq> receiver classifies as \<open>REFILL\<close> exactly when a primary card and a user card are both
  present, and is rejected otherwise.
\<close>

theorem place_sender_classification:
  assumes "p_wallet pl = w_sender at" and "\<not> stripe_refill M at"
  shows
    "(a_category (w_asset at) = SUBSCRIPTION \<longrightarrow> get_action M d pl at = Inr SUBSCRIBE) \<and>
     (a_category (w_asset at) = BADGE_ASSET \<longrightarrow> get_action M d pl at = Inr BADGE) \<and>
     (a_category (w_asset at) \<noteq> SUBSCRIPTION \<and> a_category (w_asset at) \<noteq> BADGE_ASSET \<and>
      w_sender at = w_receiver at \<longrightarrow>
        get_action M d pl at =
          Inl (ValidationError
                (if a_wallet_origin (w_asset at) = p_wallet pl
                 then ''no longuer implemented for REFILL. Send user wallet instead''
                 else ''Unauthorized wallet_origin''))) \<and>
     (a_category (w_asset at) \<noteq> SUBSCRIPTION \<and> a_category (w_asset at) \<noteq> BADGE_ASSET \<and>
      w_sender at \<noteq> w_receiver at \<longrightarrow>
        get_action M d pl at =
          (if primary_card at \<noteq> None \<and> user_card at \<noteq> None then Inr REFILL
           else Inl (ValidationError
                  ''Primary card and user card are required for refill transaction'')))"
  using assms by (simp add: get_action_def)

theorem place_sender_classification_witness:
  "p_wallet place_P = w_sender (with_cards (request_of 10 11 asset_LOCAL 10)) \<and>
   \<not> stripe_refill models_P (with_cards (request_of 10 11 asset_LOCAL 10)) \<and>
   get_action models_P db_P place_P (with_cards (request_of 10 11 asset_LOCAL 10)) = Inr REFILL \<and>
   get_action models_P db_P place_P (request_of 10 11 asset_LOCAL 10) =
     Inl (ValidationError ''Primary card and user card are required for refill transaction'') \<and>
   get_action models_P db_P place_P (request_of 10 11 asset_MEMBERSHIP 1) = Inr SUBSCRIBE \<and>
   get_action models_P db_P place_P (with_cards (request_of 10 10 asset_LOCAL 10)) =
     Inl (ValidationError ''no longuer implemented for REFILL. Send user wallet instead'')"
proof -
  have s: "p_wallet place_P = w_sender (with_cards (request_of 10 n asset_LOCAL 10))"
          "p_wallet place_P = w_sender (request_of 10 n a k)" for n a k
    by (simp_all add: world_defs)
  have g: "\<not> stripe_refill models_P (with_cards (request_of 10 n asset_LOCAL 10))"
          "\<not> stripe_refill models_P (request_of 10 n a k)" for n a k
    by (simp_all add: world_defs code_defs)
  from place_sender_classification [OF s(1) g(1), of 11 db_P]
  have 1: "get_action models_P db_P place_P (with_cards (request_of 10 11 asset_LOCAL 10)) = Inr REFILL"
    by (simp add: world_defs code_defs)
  from place_sender_classification [OF s(2) g(2), of 11 asset_LOCAL 10 db_P]
  have 2: "get_action models_P db_P place_P (request_of 10 11 asset_LOCAL 10) =
     Inl (ValidationError ''Primary card and user card are required for refill transaction'')"
    by (simp add: world_defs code_defs)
  from place_sender_classification [OF s(2) g(2), of 11 asset_MEMBERSHIP 1 db_P]
  have 3: "get_action models_P db_P place_P (request_of 10 11 asset_MEMBERSHIP 1) = Inr SUBSCRIBE"
    by (simp add: world_defs)
  from place_sender_classification [OF s(1) g(1), of 10 db_P]
  have 4: "get_action models_P db_P place_P (with_cards (request_of 10 10 asset_LOCAL 10)) =
     Inl (ValidationError ''no longuer implemented for REFILL. Send user wallet instead'')"
    by (simp add: world_defs)
  from s(1) [of 11] g(1) [of 11] 1 2 3 4 show ?thesis by blast
qed

section \<open>Classification when the place is the receiver\<close>

text \<open>
  A refill paid through the payment processor whose receiver is the wallet of the place P: the sender
  is the primary wallet, the place's primary card and a user card are supplied, the place
  is in the delegation of the user card and accepts the asset. Every condition of a sale
  holds, and the request classifies as \<open>REFILL\<close> by the first rule of \<open>get_action\<close>.
\<close>

theorem checkout_refill_to_place_not_sale:
  "p_wallet place_P =
     w_receiver ((with_cards (request_of 99 10 asset_EXTERNAL 5))
                   \<lparr>w_action := Some REFILL, w_checkout_stripe := Some 7\<rparr>) \<and>
   p_wallet place_P \<noteq>
     w_sender ((with_cards (request_of 99 10 asset_EXTERNAL 5))
                   \<lparr>w_action := Some REFILL, w_checkout_stripe := Some 7\<rparr>) \<and>
   primary_card ((with_cards (request_of 99 10 asset_EXTERNAL 5))
                   \<lparr>w_action := Some REFILL, w_checkout_stripe := Some 7\<rparr>) = Some card_C1 \<and>
   c_uuid card_C1 \<in> set (p_primary_cards place_P) \<and>
   user_card ((with_cards (request_of 99 10 asset_EXTERNAL 5))
                   \<lparr>w_action := Some REFILL, w_checkout_stripe := Some 7\<rparr>) = Some card_C2 \<and>
   10 \<in> set (get_authority_delegation models_P card_C2) \<and>
   a_uuid asset_EXTERNAL \<in> set (accepted_assets models_P place_P) \<and>
   get_action models_P db_P place_P
     ((with_cards (request_of 99 10 asset_EXTERNAL 5))
        \<lparr>w_action := Some REFILL, w_checkout_stripe := Some 7\<rparr>) = Inr REFILL"
  by (simp add: world_defs code_defs)

text \<open>
  C4, as the code has it. For a request whose receiver is the wallet of the requesting
  place, whose sender is not, and that is not the refill paid through the payment processor:
  \<open>get_action\<close> returns \<open>SALE\<close> exactly when a primary card registered among the place's
  primary cards and a user card are supplied, the receiver is in the authority delegation
  of the user card, and the asset is among the place's accepted assets. Otherwise the
  request is rejected with the message of the first condition that fails, in this order:
  no primary card, primary card not registered, no user card, receiver not in the
  delegation ("Unauthorized"), asset not accepted.
\<close>

theorem place_receiver_classification:
  assumes "p_wallet pl = w_receiver at" and "p_wallet pl \<noteq> w_sender at"
    and "\<not> stripe_refill M at"
  shows
    "(get_action M d pl at = Inr SALE \<longleftrightarrow>
        (\<exists>pc uc. primary_card at = Some pc \<and> c_uuid pc \<in> set (p_primary_cards pl) \<and>
           user_card at = Some uc \<and> w_receiver at \<in> set (get_authority_delegation M uc) \<and>
           a_uuid (w_asset at) \<in> set (accepted_assets M pl))) \<and>
     (get_action M d pl at \<noteq> Inr SALE \<longrightarrow>
        get_action M d pl at =
          Inl (ValidationError
            (case primary_card at of
               None \<Rightarrow> ''Primary card is required for sale transaction''
             | Some pc \<Rightarrow>
                 if c_uuid pc \<notin> set (p_primary_cards pl)
                 then ''Primary card must be in place primary cards''
                 else (case user_card at of
                         None \<Rightarrow> ''User card is required for sale transaction''
                       | Some uc \<Rightarrow>
                           if w_receiver at \<notin> set (get_authority_delegation M uc)
                           then ''Unauthorized'' else ''Asset not accepted''))))"
  using assms by (auto simp: get_action_def split: option.splits)

theorem place_receiver_classification_witness:
  "p_wallet place_P = w_receiver (with_cards (request_of 11 10 asset_LOCAL 4)) \<and>
   p_wallet place_P \<noteq> w_sender (with_cards (request_of 11 10 asset_LOCAL 4)) \<and>
   \<not> stripe_refill models_P (with_cards (request_of 11 10 asset_LOCAL 4)) \<and>
   get_action models_P db_P place_P (with_cards (request_of 11 10 asset_LOCAL 4)) = Inr SALE \<and>
   get_action models_P db_P place_P (request_of 11 10 asset_LOCAL 4) =
     Inl (ValidationError ''Primary card is required for sale transaction'')"
proof -
  have r: "p_wallet place_P = w_receiver (with_cards (request_of 11 10 asset_LOCAL 4))"
          "p_wallet place_P = w_receiver (request_of 11 10 asset_LOCAL 4)"
    by (simp_all add: world_defs)
  have s: "p_wallet place_P \<noteq> w_sender (with_cards (request_of 11 10 asset_LOCAL 4))"
          "p_wallet place_P \<noteq> w_sender (request_of 11 10 asset_LOCAL 4)"
    by (simp_all add: world_defs)
  have g: "\<not> stripe_refill models_P (with_cards (request_of 11 10 asset_LOCAL 4))"
          "\<not> stripe_refill models_P (request_of 11 10 asset_LOCAL 4)"
    by (simp_all add: world_defs code_defs)
  have c: "primary_card (with_cards (request_of 11 10 asset_LOCAL 4)) = Some card_C1 \<and>
           c_uuid card_C1 \<in> set (p_primary_cards place_P) \<and>
           user_card (with_cards (request_of 11 10 asset_LOCAL 4)) = Some card_C2 \<and>
           w_receiver (with_cards (request_of 11 10 asset_LOCAL 4))
             \<in> set (get_authority_delegation models_P card_C2) \<and>
           a_uuid (w_asset (with_cards (request_of 11 10 asset_LOCAL 4)))
             \<in> set (accepted_assets models_P place_P)"
    by (simp add: world_defs code_defs)
  from place_receiver_classification [OF r(1) s(1) g(1), of db_P] c
  have 1: "get_action models_P db_P place_P (with_cards (request_of 11 10 asset_LOCAL 4)) = Inr SALE"
    by blast
  have n: "primary_card (request_of 11 10 asset_LOCAL 4) = None"
    by (simp add: world_defs code_defs)
  from place_receiver_classification [OF r(2) s(2) g(2), of db_P] n
  have 2: "get_action models_P db_P place_P (request_of 11 10 asset_LOCAL 4) =
     Inl (ValidationError ''Primary card is required for sale transaction'')"
    by auto
  from r(1) s(1) g(1) 1 2 show ?thesis by blast
qed


section \<open>Validation of a wallet-to-wallet transaction\<close>

text \<open>
  C5. Validation rejects the request unless the sender wallet or the receiver wallet is the
  wallet of the requesting place, or the asset is the externally backed (stripe-primary)
  asset, or the classified action is \<open>FUSION\<close>: whenever \<open>validate\<close> accepts a request and
  returns its transaction, a place was found for the request, the transaction carries the
  action \<open>get_action\<close> gave, and one of the four conditions holds.
\<close>

theorem validate_requires_place_party:
  assumes "validate M rq at d = (Inr t, d')"
  shows "\<exists>pl. resolve_place M rq at = Inr pl \<and>
           get_action M d pl at = Inr (tx_action t) \<and>
           (p_wallet pl = w_sender at \<or> p_wallet pl = w_receiver at \<or>
            is_stripe_primary M (w_asset at) \<or> tx_action t = FUSION)"
proof -
  from validate_Inr [OF assms] obtain pl act where
    pl: "resolve_place M rq at = Inr pl" and act: "get_action M d pl at = Inr act"
    and t: "t = transaction_dict rq at act"
    by blast
  have "tx_action t = act" using t by (simp add: transaction_dict_def)
  with pl act get_action_authorized [OF act] show ?thesis by auto
qed

theorem validate_requires_place_party_witness:
  "fst (validate models_P request_P (with_cards (request_of 11 10 asset_LOCAL 4)) db_P) =
     Inr (transaction_dict request_P (with_cards (request_of 11 10 asset_LOCAL 4)) SALE) \<and>
   (\<exists>pl. resolve_place models_P request_P (with_cards (request_of 11 10 asset_LOCAL 4)) = Inr pl \<and>
      get_action models_P db_P pl (with_cards (request_of 11 10 asset_LOCAL 4)) =
        Inr (tx_action (transaction_dict request_P (with_cards (request_of 11 10 asset_LOCAL 4)) SALE)) \<and>
      (p_wallet pl = w_sender (with_cards (request_of 11 10 asset_LOCAL 4)) \<or>
       p_wallet pl = w_receiver (with_cards (request_of 11 10 asset_LOCAL 4)) \<or>
       is_stripe_primary models_P (w_asset (with_cards (request_of 11 10 asset_LOCAL 4))) \<or>
       tx_action (transaction_dict request_P (with_cards (request_of 11 10 asset_LOCAL 4)) SALE) =
         FUSION))"
proof -
  let ?at = "with_cards (request_of 11 10 asset_LOCAL 4)"
  have v: "fst (validate models_P request_P ?at db_P) = Inr (transaction_dict request_P ?at SALE)"
    by (simp add: world_defs code_defs)
  from validate_requires_place_party [OF pair_of_fst [OF v]] v show ?thesis by blast
qed

text \<open>
  C6. For a transaction classified as \<open>REFILL\<close>, a \<open>CREATION\<close> transaction whose sender and
  receiver are both the sender wallet and whose amount is the requested amount is created
  first, and its hash is verified before the \<open>REFILL\<close> transaction is created; a hash that
  does not verify, on either transaction, is raised as an error. Whatever \<open>validate\<close>
  returns for such a request, the ledger is in one of three states: nothing was appended
  and an error is returned; the \<open>CREATION\<close> alone was appended and an error is returned, which
  is "Transaction hash is not valid" when its hash does not verify; or the \<open>CREATION\<close>, with a
  hash that verifies, and then the \<open>REFILL\<close> were appended, and the result is the \<open>REFILL\<close>
  when its hash verifies and the error "Transaction hash is not valid" when it does not.
\<close>

theorem refill_creation_first:
  assumes pl: "resolve_place M rq at = Inr pl" and act: "get_action M d pl at = Inr REFILL"
    and out: "validate M rq at d = (r, d')"
  shows "\<exists>crea. tx_action crea = CREATION \<and> tx_sender crea = w_sender at \<and>
           tx_receiver crea = w_sender at \<and> tx_amount crea = w_amount at \<and>
           tx_asset crea = w_asset at \<and>
           ((ledger d' = ledger d \<and> (\<exists>e. r = Inl e)) \<or>
            (ledger d' = ledger d @ [crea] \<and> (\<exists>e. r = Inl e) \<and>
               (verify_hash M (ledger d') crea \<or>
                r = Inl (ValidationError ''Transaction hash is not valid''))) \<or>
            (\<exists>t. ledger d' = ledger d @ [crea, t] \<and> tx_action t = REFILL \<and>
               tx_sender t = w_sender at \<and> tx_receiver t = w_receiver at \<and>
               tx_amount t = w_amount at \<and>
               verify_hash M (ledger d @ [crea]) crea \<and>
               (if verify_hash M (ledger d') t then r = Inr t
                else r = Inl (ValidationError ''Transaction hash is not valid''))))"
proof -
  let ?crea = "crea_transac_dict rq at"
  let ?t = "transaction_dict rq at REFILL"
  have fields: "tx_action ?crea = CREATION \<and> tx_sender ?crea = w_sender at \<and>
           tx_receiver ?crea = w_sender at \<and> tx_amount ?crea = w_amount at \<and>
           tx_asset ?crea = w_asset at"
    by (simp add: crea_transac_dict_def)
  have tfields: "tx_action ?t = REFILL \<and>
               tx_sender ?t = w_sender at \<and> tx_receiver ?t = w_receiver at \<and>
               tx_amount ?t = w_amount at"
    by (simp add: transaction_dict_def)
  note v = validate_classified [OF pl act]
  show ?thesis
  proof (cases "get_token_sender at REFILL d")
    case (Inl e)
    with v out have "r = Inl e \<and> d' = d" by simp
    with fields show ?thesis by blast
  next
    case ts: (Inr ts)
    show ?thesis
    proof (cases "get_or_create_token_receiver at d")
      case (Inl e)
      with v out ts have "r = Inl e \<and> d' = d" by simp
      with fields show ?thesis by blast
    next
      case d1: (Inr d1)
      have l1: "ledger d1 = ledger d"
        using get_or_create_token_receiver_Inr [OF d1] by simp
      obtain r2 d2 where c2: "create_and_verify M ?crea d1 = (r2, d2)"
        by (cases "create_and_verify M ?crea d1")
      show ?thesis
      proof (cases r2)
        case (Inl e)
        with v out ts d1 c2 have rd: "r = Inl e" "d' = d2" by simp_all
        from create_and_verify_Inl_ledger [of M ?crea d1 e d2] c2 Inl
        have "ledger d2 = ledger d1 \<or>
           (ledger d2 = ledger d1 @ [?crea] \<and> \<not> verify_hash M (ledger d2) ?crea \<and>
             e = ValidationError ''Transaction hash is not valid'')" by simp
        with rd l1 fields show ?thesis by auto
      next
        case (Inr tc)
        from create_and_verify_Inr_ledger [of M ?crea d1 tc d2] c2 Inr
        have l2: "ledger d2 = ledger d @ [?crea]"
          and vc: "verify_hash M (ledger d @ [?crea]) ?crea"
          using l1 by auto
        from v out ts d1 c2 Inr have c3: "create_and_verify M ?t d2 = (r, d')" by simp
        show ?thesis
        proof (cases r)
          case (Inl e)
          from create_and_verify_Inl_ledger [of M ?t d2 e d'] c3 Inl
          have "ledger d' = ledger d2 \<or>
           (ledger d' = ledger d2 @ [?t] \<and> \<not> verify_hash M (ledger d') ?t \<and>
             e = ValidationError ''Transaction hash is not valid'')" by simp
          then show ?thesis
          proof
            assume "ledger d' = ledger d2"
            with l2 vc Inl fields show ?thesis by auto
          next
            assume a: "ledger d' = ledger d2 @ [?t] \<and> \<not> verify_hash M (ledger d') ?t \<and>
             e = ValidationError ''Transaction hash is not valid''"
            with l2 have "ledger d' = ledger d @ [?crea, ?t]" by simp
            with a vc Inl fields tfields show ?thesis by auto
          qed
        next
          case (Inr t')
          from create_and_verify_Inr_ledger [of M ?t d2 t' d'] c3 Inr
          have "t' = ?t" "ledger d' = ledger d2 @ [?t]" "verify_hash M (ledger d') ?t" by auto
          with l2 vc Inr fields tfields show ?thesis by auto
        qed
      qed
    qed
  qed
qed


theorem refill_creation_first_witness:
  "resolve_place models_P request_P refill_10 = Inr place_P \<and>
   get_action models_P db_P place_P refill_10 = Inr REFILL \<and>
   fst (validate models_P request_P refill_10 db_P) =
     Inr (transaction_dict request_P refill_10 REFILL) \<and>
   ledger (snd (validate models_P request_P refill_10 db_P)) =
     [crea_transac_dict request_P refill_10, transaction_dict request_P refill_10 REFILL] \<and>
   fst (validate models_bad_hash request_P refill_10 db_P) =
     Inl (ValidationError ''Transaction hash is not valid'') \<and>
   ledger (snd (validate models_bad_hash request_P refill_10 db_P)) =
     [crea_transac_dict request_P refill_10] \<and>
   (\<exists>crea. tx_action crea = CREATION \<and> tx_sender crea = w_sender refill_10 \<and>
      tx_receiver crea = w_sender refill_10 \<and> tx_amount crea = w_amount refill_10 \<and>
      tx_asset crea = w_asset refill_10 \<and>
      ledger (snd (validate models_P request_P refill_10 db_P)) = ledger db_P @ [crea] @
        [transaction_dict request_P refill_10 REFILL])"
proof -
  let ?X = "validate models_P request_P refill_10 db_P"
  let ?t = "transaction_dict request_P refill_10 REFILL"
  have pl: "resolve_place models_P request_P refill_10 = Inr place_P"
    by (simp add: refill_10_def models_bad_hash_def world_defs code_defs)
  have act: "get_action models_P db_P place_P refill_10 = Inr REFILL"
    by (simp add: refill_10_def models_bad_hash_def world_defs code_defs)
  have r: "fst ?X = Inr ?t"
    by (simp add: refill_10_def models_bad_hash_def world_defs code_defs)
  have l: "ledger (snd ?X) = [crea_transac_dict request_P refill_10, ?t]"
    by (simp add: refill_10_def models_bad_hash_def world_defs code_defs)
  have br: "fst (validate models_bad_hash request_P refill_10 db_P) =
     Inl (ValidationError ''Transaction hash is not valid'')"
    by (simp add: refill_10_def models_bad_hash_def world_defs code_defs)
  have bl: "ledger (snd (validate models_bad_hash request_P refill_10 db_P)) =
     [crea_transac_dict request_P refill_10]"
    by (simp add: refill_10_def models_bad_hash_def world_defs code_defs)
  have e: "ledger db_P = []" by (simp add: world_defs)
  from refill_creation_first [OF pl act pair_of_fst [OF r]] obtain crea where
    f: "tx_action crea = CREATION \<and> tx_sender crea = w_sender refill_10 \<and>
        tx_receiver crea = w_sender refill_10 \<and> tx_amount crea = w_amount refill_10 \<and>
        tx_asset crea = w_asset refill_10"
    and c: "(ledger (snd ?X) = ledger db_P \<and> (\<exists>e. Inr ?t = (Inl e :: exn + tx))) \<or>
            (ledger (snd ?X) = ledger db_P @ [crea] \<and> (\<exists>e. Inr ?t = (Inl e :: exn + tx)) \<and>
               (verify_hash models_P (ledger (snd ?X)) crea \<or>
                Inr ?t = (Inl (ValidationError ''Transaction hash is not valid'') :: exn + tx))) \<or>
            (\<exists>t. ledger (snd ?X) = ledger db_P @ [crea, t] \<and> tx_action t = REFILL \<and>
               tx_sender t = w_sender refill_10 \<and> tx_receiver t = w_receiver refill_10 \<and>
               tx_amount t = w_amount refill_10 \<and>
               verify_hash models_P (ledger db_P @ [crea]) crea \<and>
               (if verify_hash models_P (ledger (snd ?X)) t then Inr ?t = (Inr t :: exn + tx)
                else Inr ?t = (Inl (ValidationError ''Transaction hash is not valid'') :: exn + tx)))"
    by blast
  from c have "\<exists>t. ledger (snd ?X) = ledger db_P @ [crea, t]" by auto
  with l e have "ledger (snd ?X) = ledger db_P @ [crea] @ [?t]" by auto
  with f have "\<exists>crea. tx_action crea = CREATION \<and> tx_sender crea = w_sender refill_10 \<and>
      tx_receiver crea = w_sender refill_10 \<and> tx_amount crea = w_amount refill_10 \<and>
      tx_asset crea = w_asset refill_10 \<and>
      ledger (snd ?X) = ledger db_P @ [crea] @ [?t]" by blast
  with pl act r l br bl show ?thesis by blast
qed

text \<open>
  C7. For \<open>SALE\<close> and \<open>TRANSFER\<close> the sender's token for the asset must exist with a value
  of at least the amount: a request classified so is accepted only if there is one such
  token and its value is not below the amount. When the sender has no token for the asset
  the error is "Sender token does not exist"; when it has one whose value is below the
  amount the error is "Not enough token on sender wallet"; the two errors differ. Both
  leave the database as it was.
\<close>

theorem sender_balance_check:
  assumes pl: "resolve_place M rq at = Inr pl" and act: "get_action M d pl at = Inr act"
    and sale: "act = SALE \<or> act = TRANSFER"
  shows
    "(filter (token_of (w_sender at) (w_asset at)) (tokens d) = [] \<longrightarrow>
        validate M rq at d = (Inl (ValidationError ''Sender token does not exist''), d)) \<and>
     (filter (token_of (w_sender at) (w_asset at)) (tokens d) = [ts] \<and>
      t_value ts < w_amount at \<longrightarrow>
        validate M rq at d = (Inl (ValidationError ''Not enough token on sender wallet''), d)) \<and>
     (validate M rq at d = (Inr t, d') \<longrightarrow>
        (\<exists>ts'. filter (token_of (w_sender at) (w_asset at)) (tokens d) = [ts'] \<and>
           w_amount at \<le> t_value ts')) \<and>
     ValidationError ''Sender token does not exist'' \<noteq>
       ValidationError ''Not enough token on sender wallet''"
proof -
  have a: "filter (token_of (w_sender at) (w_asset at)) (tokens d) = [] \<Longrightarrow>
        validate M rq at d = (Inl (ValidationError ''Sender token does not exist''), d)"
    by (simp add: validate_classified [OF pl act] get_token_sender_def objects_get_def)
  have b: "filter (token_of (w_sender at) (w_asset at)) (tokens d) = [ts] \<Longrightarrow>
        t_value ts < w_amount at \<Longrightarrow>
        validate M rq at d = (Inl (ValidationError ''Not enough token on sender wallet''), d)"
    using sale
    by (auto simp add: validate_classified [OF pl act] get_token_sender_def objects_get_def)
  have c: "validate M rq at d = (Inr t, d') \<Longrightarrow>
        (\<exists>ts'. filter (token_of (w_sender at) (w_asset at)) (tokens d) = [ts'] \<and>
           w_amount at \<le> t_value ts')"
    using sale
    by (auto simp add: validate_classified [OF pl act] get_token_sender_def objects_get_Inr
          split: sum.splits if_splits)
  from a b c show ?thesis by simp
qed

theorem sender_balance_check_witness:
  "get_action models_P db_P place_P (with_cards (request_of 11 10 asset_BADGE 1)) = Inr SALE \<and>
   validate models_P request_P (with_cards (request_of 11 10 asset_BADGE 1)) db_P =
     (Inl (ValidationError ''Sender token does not exist''), db_P) \<and>
   get_action models_P db_P place_P (with_cards (request_of 11 10 asset_LOCAL 100)) = Inr SALE \<and>
   validate models_P request_P (with_cards (request_of 11 10 asset_LOCAL 100)) db_P =
     (Inl (ValidationError ''Not enough token on sender wallet''), db_P) \<and>
   fst (validate models_P request_P (with_cards (request_of 11 10 asset_LOCAL 4)) db_P) =
     Inr (transaction_dict request_P (with_cards (request_of 11 10 asset_LOCAL 4)) SALE) \<and>
   (\<exists>ts'. filter (token_of 11 asset_LOCAL) (tokens db_P) = [ts'] \<and> 4 \<le> t_value ts')"
proof -
  have pl: "resolve_place models_P request_P (with_cards (request_of 11 10 a n)) = Inr place_P"
    for a n
    by (simp add: world_defs code_defs)
  have a1: "get_action models_P db_P place_P (with_cards (request_of 11 10 asset_BADGE 1)) = Inr SALE"
    by (simp add: world_defs code_defs)
  have a2: "get_action models_P db_P place_P (with_cards (request_of 11 10 asset_LOCAL 100)) = Inr SALE"
    by (simp add: world_defs code_defs)
  have a3: "get_action models_P db_P place_P (with_cards (request_of 11 10 asset_LOCAL 4)) = Inr SALE"
    by (simp add: world_defs code_defs)
  have f1: "filter (token_of (w_sender (with_cards (request_of 11 10 asset_BADGE 1)))
              (w_asset (with_cards (request_of 11 10 asset_BADGE 1)))) (tokens db_P) = []"
    by (simp add: world_defs code_defs)
  have f2: "filter (token_of (w_sender (with_cards (request_of 11 10 asset_LOCAL 100)))
              (w_asset (with_cards (request_of 11 10 asset_LOCAL 100)))) (tokens db_P) =
              [tok 11 asset_LOCAL 6] \<and>
            t_value (tok 11 asset_LOCAL 6) < w_amount (with_cards (request_of 11 10 asset_LOCAL 100))"
    by (simp add: world_defs code_defs)
  have v3: "fst (validate models_P request_P (with_cards (request_of 11 10 asset_LOCAL 4)) db_P) =
     Inr (transaction_dict request_P (with_cards (request_of 11 10 asset_LOCAL 4)) SALE)"
    by (simp add: world_defs code_defs)
  have w: "w_sender (with_cards (request_of 11 10 asset_LOCAL 4)) = 11"
    "w_asset (with_cards (request_of 11 10 asset_LOCAL 4)) = asset_LOCAL"
    "w_amount (with_cards (request_of 11 10 asset_LOCAL 4)) = 4"
    by (simp_all add: world_defs)
  from sender_balance_check [OF pl a1] f1
  have 1: "validate models_P request_P (with_cards (request_of 11 10 asset_BADGE 1)) db_P =
     (Inl (ValidationError ''Sender token does not exist''), db_P)" by blast
  from sender_balance_check [OF pl a2, of "tok 11 asset_LOCAL 6"] f2
  have 2: "validate models_P request_P (with_cards (request_of 11 10 asset_LOCAL 100)) db_P =
     (Inl (ValidationError ''Not enough token on sender wallet''), db_P)" by blast
  from sender_balance_check [OF pl a3] pair_of_fst [OF v3]
  have "\<exists>ts'. filter (token_of (w_sender (with_cards (request_of 11 10 asset_LOCAL 4)))
              (w_asset (with_cards (request_of 11 10 asset_LOCAL 4)))) (tokens db_P) = [ts'] \<and>
           w_amount (with_cards (request_of 11 10 asset_LOCAL 4)) \<le> t_value ts'" by blast
  then have 3: "\<exists>ts'. filter (token_of 11 asset_LOCAL) (tokens db_P) = [ts'] \<and> 4 \<le> t_value ts'"
    by (simp only: w)
  from a1 1 a2 2 v3 3 show ?thesis by blast
qed

text \<open>
  C10. Whatever action a wallet-to-wallet request is classified as (\<open>SUBSCRIBE\<close>, \<open>BADGE\<close>,
  \<open>REFILL\<close> and \<open>FUSION\<close> as well as \<open>SALE\<close>), validation fails with "Sender token does not
  exist" when the sender wallet holds no token for the asset, and nothing is written: a
  sender token is never created. The receiver's is: when the sender's token passed its
  check and the receiver has no token for the asset, validation goes on exactly as it does
  on the database in which the receiver already holds a token of value 0.
\<close>

theorem sender_token_never_created:
  assumes pl: "resolve_place M rq at = Inr pl" and act: "get_action M d pl at = Inr act"
  shows
    "(filter (token_of (w_sender at) (w_asset at)) (tokens d) = [] \<longrightarrow>
        validate M rq at d = (Inl (ValidationError ''Sender token does not exist''), d)) \<and>
     (get_token_sender at act d = Inr ts \<and>
      filter (token_of (w_receiver at) (w_asset at)) (tokens d) = [] \<longrightarrow>
        validate M rq at d =
          validate M rq at
            (d\<lparr>tokens := tokens d @
                [\<lparr>t_wallet = w_receiver at, t_asset = w_asset at, t_value = 0\<rparr>]\<rparr>))"
proof -
  let ?z = "\<lparr>t_wallet = w_receiver at, t_asset = w_asset at, t_value = 0\<rparr>"
  let ?d1 = "d\<lparr>tokens := tokens d @ [?z]\<rparr>"
  have a: "filter (token_of (w_sender at) (w_asset at)) (tokens d) = [] \<Longrightarrow>
        validate M rq at d = (Inl (ValidationError ''Sender token does not exist''), d)"
    by (simp add: validate_classified [OF pl act] get_token_sender_def objects_get_def)
  have b: "validate M rq at d = validate M rq at ?d1"
    if ts: "get_token_sender at act d = Inr ts"
      and none: "filter (token_of (w_receiver at) (w_asset at)) (tokens d) = []"
  proof -
    have act1: "get_action M ?d1 pl at = Inr act"
      using act by (simp add: get_action_tokens)
    have ne: "filter (token_of (w_sender at) (w_asset at)) (tokens d) \<noteq> []"
      using ts by (auto simp: get_token_sender_def objects_get_def split: list.splits)
    have "\<not> token_of (w_sender at) (w_asset at) ?z"
    proof
      assume "token_of (w_sender at) (w_asset at) ?z"
      then have "w_sender at = w_receiver at" by (simp add: token_of_def)
      with ne none show False by simp
    qed
    then have ts1: "get_token_sender at act ?d1 = get_token_sender at act d"
      by (simp add: get_token_sender_def objects_get_def)
    have r0: "get_or_create_token_receiver at d = Inr ?d1"
      using none by (simp add: get_or_create_token_receiver_def objects_get_def)
    have r1: "get_or_create_token_receiver at ?d1 = Inr ?d1"
      using none by (simp add: get_or_create_token_receiver_def objects_get_def token_of_def)
    show ?thesis
      by (simp add: validate_classified [OF pl act] validate_classified [OF pl act1] ts1 ts r0 r1)
  qed
  from a b show ?thesis by blast
qed

theorem sender_token_never_created_witness:
  "get_action models_P db_P place_P (request_of 10 11 asset_MEMBERSHIP 1) = Inr SUBSCRIBE \<and>
   validate models_P request_P (request_of 10 11 asset_MEMBERSHIP 1) db_P =
     (Inl (ValidationError ''Sender token does not exist''), db_P) \<and>
   get_action models_P db_P place_P (with_cards (request_of 10 12 asset_LOCAL 3)) = Inr REFILL \<and>
   validate models_P request_P (with_cards (request_of 10 12 asset_LOCAL 3)) db_P =
     validate models_P request_P (with_cards (request_of 10 12 asset_LOCAL 3))
       (db_P\<lparr>tokens := tokens db_P @ [tok 12 asset_LOCAL 0]\<rparr>) \<and>
   fst (validate models_P request_P (with_cards (request_of 10 12 asset_LOCAL 3)) db_P) =
     Inr (transaction_dict request_P (with_cards (request_of 10 12 asset_LOCAL 3)) REFILL)"
proof -
  have pl: "resolve_place models_P request_P at = Inr place_P" for at
    by (simp add: world_defs code_defs)
  have a1: "get_action models_P db_P place_P (request_of 10 11 asset_MEMBERSHIP 1) = Inr SUBSCRIBE"
    by (simp add: world_defs code_defs)
  have a2: "get_action models_P db_P place_P (with_cards (request_of 10 12 asset_LOCAL 3)) = Inr REFILL"
    by (simp add: world_defs code_defs)
  have f1: "filter (token_of (w_sender (request_of 10 11 asset_MEMBERSHIP 1))
              (w_asset (request_of 10 11 asset_MEMBERSHIP 1))) (tokens db_P) = []"
    by (simp add: world_defs code_defs)
  have f2: "get_token_sender (with_cards (request_of 10 12 asset_LOCAL 3)) REFILL db_P =
              Inr (tok 10 asset_LOCAL 0) \<and>
            filter (token_of (w_receiver (with_cards (request_of 10 12 asset_LOCAL 3)))
              (w_asset (with_cards (request_of 10 12 asset_LOCAL 3)))) (tokens db_P) = []"
    by (simp add: world_defs code_defs)
  have z: "\<lparr>t_wallet = w_receiver (with_cards (request_of 10 12 asset_LOCAL 3)),
            t_asset = w_asset (with_cards (request_of 10 12 asset_LOCAL 3)), t_value = 0\<rparr> =
           tok 12 asset_LOCAL 0"
    by (simp add: world_defs)
  have v: "fst (validate models_P request_P (with_cards (request_of 10 12 asset_LOCAL 3)) db_P) =
     Inr (transaction_dict request_P (with_cards (request_of 10 12 asset_LOCAL 3)) REFILL)"
    by (simp add: world_defs code_defs)
  from sender_token_never_created [OF pl a1] f1
  have 1: "validate models_P request_P (request_of 10 11 asset_MEMBERSHIP 1) db_P =
     (Inl (ValidationError ''Sender token does not exist''), db_P)" by blast
  from sender_token_never_created [OF pl a2, of "tok 10 asset_LOCAL 0"] f2
  have "validate models_P request_P (with_cards (request_of 10 12 asset_LOCAL 3)) db_P =
     validate models_P request_P (with_cards (request_of 10 12 asset_LOCAL 3))
       (db_P\<lparr>tokens := tokens db_P @
          [\<lparr>t_wallet = w_receiver (with_cards (request_of 10 12 asset_LOCAL 3)),
            t_asset = w_asset (with_cards (request_of 10 12 asset_LOCAL 3)), t_value = 0\<rparr>]\<rparr>)"
    by blast
  then have 2: "validate models_P request_P (with_cards (request_of 10 12 asset_LOCAL 3)) db_P =
     validate models_P request_P (with_cards (request_of 10 12 asset_LOCAL 3))
       (db_P\<lparr>tokens := tokens db_P @ [tok 12 asset_LOCAL 0]\<rparr>)"
    by (simp only: z)
  from a1 1 a2 2 v show ?thesis by blast
qed


section \<open>Refund and void\<close>

lemma refund_loop_Inr:
  "refund_loop M rq pl pc uc ts d = (Inr txs, d') \<Longrightarrow>
     txs = map (refund_transaction_dict M rq pl pc uc) ts \<and>
     ledger d' = ledger d @ txs \<and> cards d' = cards d \<and> users d' = users d"
proof (induction ts arbitrary: d txs)
  case Nil
  then show ?case by simp
next
  case (Cons t ts)
  from Cons.prems obtain d1 where
    d1: "Transaction_create M (refund_transaction_dict M rq pl pc uc t) d = Inr d1"
    by (auto split: sum.splits)
  from Cons.prems d1 obtain txs' where
    rest: "refund_loop M rq pl pc uc ts d1 = (Inr txs', d')"
    and txs: "txs = refund_transaction_dict M rq pl pc uc t # txs'"
    by (auto split: sum.splits prod.splits)
  from Cons.IH [OF rest] Transaction_create_Inr [OF d1] txs show ?case by simp
qed

lemma refund_loop_total:
  assumes "\<And>t toks. \<exists>toks'. save_tokens M t toks = Inr toks'"
  shows "\<exists>txs d'. refund_loop M rq pl pc uc ts d = (Inr txs, d')"
proof (induction ts arbitrary: d)
  case Nil
  then show ?case by simp
next
  case (Cons t ts)
  from assms obtain toks' where
    "save_tokens M (refund_transaction_dict M rq pl pc uc t) (tokens d) = Inr toks'" by blast
  then obtain d1 where
    d1: "Transaction_create M (refund_transaction_dict M rq pl pc uc t) d = Inr d1"
    by (simp add: Transaction_create_def)
  from Cons.IH [of d1] obtain txs d' where "refund_loop M rq pl pc uc ts d1 = (Inr txs, d')"
    by blast
  with d1 show ?case by simp
qed

text \<open>
  The card of the user U is refunded at the place P. The wallet of U holds 7 units of the
  externally backed asset, which P accepts, and 1 unit of the membership asset of P; the
  only transaction created is the one for its 6 units of LOCAL.
\<close>

theorem refund_skips_accepted_asset:
  "get_wallet models_P card_C2 = 11 \<and>
   tok 11 asset_EXTERNAL 7 \<in> set (tokens db_P) \<and>
   a_uuid asset_EXTERNAL \<in> set (accepted_assets models_P place_P) \<and>
   tok 11 asset_MEMBERSHIP 1 \<in> set (tokens db_P) \<and>
   a_uuid asset_MEMBERSHIP \<in> set (accepted_assets models_P place_P) \<and>
   fst (refund_or_void_validate models_P request_P (refund_of card_C2 (Some REFUND)) db_P) =
     Inr [refund_transaction_dict models_P request_P place_P (Some card_C1) card_C2
            (tok 11 asset_LOCAL 6)]"
  by (simp add: world_defs code_defs refund_of_def refund_filter_def
        refund_transaction_dict_def refund_or_void_validate_def)

text \<open>
  C8, as the code has it. For a user card and a place (with one of the place's primary
  cards), \<open>REFUND\<close> creates one transaction of action \<open>REFUND\<close> for every token of the card's
  wallet that has a positive balance in an asset created by that place (its
  \<open>wallet_origin\<close> is the place's wallet) of category \<open>TOKEN_LOCAL_FIAT\<close> or
  \<open>TOKEN_LOCAL_NOT_FIAT\<close>, in the order of the tokens, moving the token's full balance from
  the card's wallet to the place's wallet; \<open>VOID\<close> performs the same sweep and then clears
  the user and the ephemeral wallet of the card; any other request leaves the cards as they
  are. The sweep fails only if the creation of a transaction raises.
\<close>

theorem refund_sweep:
  assumes pl: "r_place rq = Some pl"
    and pc: "py_or (rv_primary_card_uuid at) (rv_primary_card_fisrtTagId at) = Some pc"
    and reg: "c_uuid pc \<in> set (p_primary_cards pl)"
    and uc: "py_or (rv_user_card_uuid at) (rv_user_card_firstTagId at) = Some uc"
    and out: "refund_or_void_validate M rq at d = (r, d')"
  shows
    "(r = Inr txs \<longrightarrow>
        map tx_asset txs = map t_asset (filter (refund_filter pl (get_wallet M uc)) (tokens d)) \<and>
        map tx_amount txs = map t_value (filter (refund_filter pl (get_wallet M uc)) (tokens d)) \<and>
        (\<forall>t \<in> set txs. tx_sender t = get_wallet M uc \<and> tx_receiver t = p_wallet pl \<and>
                         tx_action t = REFUND) \<and>
        ledger d' = ledger d @ txs \<and>
        (if rv_action at = Some VOID
         then (\<exists>c \<in> set (cards d'). c_uuid c = c_uuid uc) \<and>
              (\<forall>c \<in> set (cards d'). c_uuid c = c_uuid uc \<longrightarrow>
                 c_user c = None \<and> c_wallet_ephemere c = None)
         else cards d' = cards d)) \<and>
     ((\<forall>t toks. \<exists>toks'. save_tokens M t toks = Inr toks') \<longrightarrow> (\<exists>txs'. r = Inr txs'))"
proof -
  let ?toks = "filter (refund_filter pl (get_wallet M uc)) (tokens d)"
  let ?void = "uc\<lparr>c_user := None, c_wallet_ephemere := None\<rparr>"
  obtain r1 d1 where loop: "refund_loop M rq pl (Some pc) uc ?toks d = (r1, d1)"
    by (cases "refund_loop M rq pl (Some pc) uc ?toks d")
  have unfold: "refund_or_void_validate M rq at d =
      (case r1 of Inl e \<Rightarrow> (Inl e, d1)
       | Inr txs \<Rightarrow> if rv_action at = Some VOID then (Inr txs, card_save ?void d1) else (Inr txs, d1))"
    using pl pc reg uc loop by (simp add: refund_or_void_validate_def split: sum.splits)
  have a: "map tx_asset txs = map t_asset ?toks \<and> map tx_amount txs = map t_value ?toks \<and>
        (\<forall>t \<in> set txs. tx_sender t = get_wallet M uc \<and> tx_receiver t = p_wallet pl \<and>
                         tx_action t = REFUND) \<and>
        ledger d' = ledger d @ txs \<and>
        (if rv_action at = Some VOID
         then (\<exists>c \<in> set (cards d'). c_uuid c = c_uuid uc) \<and>
              (\<forall>c \<in> set (cards d'). c_uuid c = c_uuid uc \<longrightarrow>
                 c_user c = None \<and> c_wallet_ephemere c = None)
         else cards d' = cards d)" if r: "r = Inr txs"
  proof -
    from out unfold r have r1: "r1 = Inr txs"
      and d': "d' = (if rv_action at = Some VOID then card_save ?void d1 else d1)"
      by (auto split: sum.splits if_splits)
    from refund_loop_Inr [of M rq pl "Some pc" uc ?toks d txs d1] loop r1
    have txs: "txs = map (refund_transaction_dict M rq pl (Some pc) uc) ?toks"
      and l: "ledger d1 = ledger d @ txs" and c: "cards d1 = cards d"
      by simp_all
    have m1: "map tx_asset txs = map t_asset ?toks"
      unfolding txs by (simp add: refund_transaction_dict_def comp_def)
    have m2: "map tx_amount txs = map t_value ?toks"
      unfolding txs by (simp add: refund_transaction_dict_def comp_def)
    have m3: "\<forall>t \<in> set txs. tx_sender t = get_wallet M uc \<and> tx_receiver t = p_wallet pl \<and>
                         tx_action t = REFUND"
      unfolding txs by (auto simp: refund_transaction_dict_def)
    have m4: "ledger d' = ledger d @ txs" using d' l by (simp add: card_save_fields)
    have m5: "(\<exists>c \<in> set (cards d'). c_uuid c = c_uuid uc) \<and>
              (\<forall>c \<in> set (cards d'). c_uuid c = c_uuid uc \<longrightarrow>
                 c_user c = None \<and> c_wallet_ephemere c = None)" if "rv_action at = Some VOID"
      using that d' card_save_row [of ?void d1] by auto
    have m6: "cards d' = cards d" if "rv_action at \<noteq> Some VOID"
      using that d' c by simp
    from m1 m2 m3 m4 m5 m6 show ?thesis by simp
  qed
  have b: "\<exists>txs'. r = Inr txs'" if tot: "\<forall>t toks. \<exists>toks'. save_tokens M t toks = Inr toks'"
  proof -
    from refund_loop_total [of M rq pl "Some pc" uc ?toks d] tot loop
    obtain txs' where "r1 = Inr txs'" by auto
    with out unfold show ?thesis by (auto split: if_splits)
  qed
  from a b show ?thesis by blast
qed

theorem refund_sweep_witness:
  "fst (refund_or_void_validate models_P request_P (refund_of card_C2 (Some VOID)) db_P) =
     Inr [refund_transaction_dict models_P request_P place_P (Some card_C1) card_C2
            (tok 11 asset_LOCAL 6)] \<and>
   filter (refund_filter place_P (get_wallet models_P card_C2)) (tokens db_P) =
     [tok 11 asset_LOCAL 6] \<and>
   map tx_amount [refund_transaction_dict models_P request_P place_P (Some card_C1) card_C2
            (tok 11 asset_LOCAL 6)] =
     map t_value (filter (refund_filter place_P (get_wallet models_P card_C2)) (tokens db_P)) \<and>
   ledger (snd (refund_or_void_validate models_P request_P (refund_of card_C2 (Some VOID)) db_P)) =
     ledger db_P @ [refund_transaction_dict models_P request_P place_P (Some card_C1) card_C2
            (tok 11 asset_LOCAL 6)] \<and>
   cards (snd (refund_or_void_validate models_P request_P (refund_of card_C2 (Some VOID)) db_P)) =
     [card_C1, card_C2\<lparr>c_user := None, c_wallet_ephemere := None\<rparr>, card_C3] \<and>
   (\<exists>txs'. fst (refund_or_void_validate models_P request_P (refund_of card_C2 (Some REFUND)) db_P) =
      Inr txs')"
proof -
  let ?X = "refund_or_void_validate models_P request_P (refund_of card_C2 (Some VOID)) db_P"
  let ?Y = "refund_or_void_validate models_P request_P (refund_of card_C2 (Some REFUND)) db_P"
  let ?txs = "[refund_transaction_dict models_P request_P place_P (Some card_C1) card_C2
            (tok 11 asset_LOCAL 6)]"
  have pl: "r_place request_P = Some place_P" by (simp add: world_defs)
  have pc: "py_or (rv_primary_card_uuid (refund_of card_C2 a))
              (rv_primary_card_fisrtTagId (refund_of card_C2 a)) = Some card_C1" for a
    by (simp add: world_defs code_defs refund_of_def refund_filter_def
        refund_transaction_dict_def refund_or_void_validate_def)
  have reg: "c_uuid card_C1 \<in> set (p_primary_cards place_P)" by (simp add: world_defs)
  have uc: "py_or (rv_user_card_uuid (refund_of card_C2 a))
              (rv_user_card_firstTagId (refund_of card_C2 a)) = Some card_C2" for a
    by (simp add: world_defs code_defs refund_of_def refund_filter_def
        refund_transaction_dict_def refund_or_void_validate_def)
  have x: "fst ?X = Inr ?txs" by (simp add: world_defs code_defs refund_of_def refund_filter_def
        refund_transaction_dict_def refund_or_void_validate_def)
  have f: "filter (refund_filter place_P (get_wallet models_P card_C2)) (tokens db_P) =
     [tok 11 asset_LOCAL 6]" by (simp add: world_defs code_defs refund_of_def refund_filter_def
        refund_transaction_dict_def refund_or_void_validate_def)
  have cs: "cards (snd ?X) = [card_C1, card_C2\<lparr>c_user := None, c_wallet_ephemere := None\<rparr>, card_C3]"
    by (simp add: world_defs code_defs refund_of_def refund_filter_def
        refund_transaction_dict_def refund_or_void_validate_def)
  have tot: "\<forall>t toks. \<exists>toks'. save_tokens models_P t toks = Inr toks'"
    by (simp add: models_P_def spec_save_tokens_def)
  from refund_sweep [OF pl pc reg uc pair_of_fst [OF x], of ?txs]
  have 1: "map tx_amount ?txs =
      map t_value (filter (refund_filter place_P (get_wallet models_P card_C2)) (tokens db_P))"
    and 2: "ledger (snd ?X) = ledger db_P @ ?txs"
    by blast+
  from refund_sweep [OF pl pc reg uc surjective_pairing [of ?Y]] tot
  have 3: "\<exists>txs'. fst ?Y = Inr txs'" by blast
  from x f 1 2 cs 3 show ?thesis by blast
qed


section \<open>Wallet fusion\<close>

lemma is_valid_cards:
  "is_valid M rq at d = (r, d') \<Longrightarrow> cards d' = cards d \<and> users d' = users d"
  using validate_cards [of M rq at d r d']
  by (auto simp: is_valid_def split: sum.splits)

lemma fusion_loop_cards:
  "fusion_loop M rqo c eph u ts d = (r, d') \<Longrightarrow> cards d' = cards d \<and> users d' = users d"
proof (induction ts arbitrary: d)
  case Nil
  then show ?case by simp
next
  case (Cons t ts)
  show ?case
  proof (cases rqo)
    case None
    with Cons.prems show ?thesis by simp
  next
    case (Some rq)
    obtain r1 d1 where v: "is_valid M rq (fusion_data c eph u t) d = (r1, d1)"
      by (cases "is_valid M rq (fusion_data c eph u t) d")
    note keep = is_valid_cards [OF v]
    show ?thesis
    proof (cases r1)
      case (Inl e)
      with Cons.prems Some v keep show ?thesis by simp
    next
      case (Inr x)
      with Cons.prems Some v have "fusion_loop M rqo c eph u ts d1 = (r, d')" by simp
      from Cons.IH [OF this] keep show ?thesis by simp
    qed
  qed
qed

lemma filter_map_replace:
  assumes "P x"
  shows "filter P (map (\<lambda>r. if P r then x else r) xs) = map (\<lambda>_. x) (filter P xs)"
  by (induction xs) (use assms in auto)

lemma card_save_get:
  assumes "objects_get (\<lambda>r. c_uuid r = k) (cards d) = Inr c" and "c_uuid c' = k"
  shows "objects_get (\<lambda>r. c_uuid r = k) (cards (card_save c' d)) = Inr c'"
proof -
  from assms(1) have f: "filter (\<lambda>r. c_uuid r = k) (cards d) = [c]"
    by (simp add: objects_get_Inr)
  then have "c \<in> set (filter (\<lambda>r. c_uuid r = k) (cards d))" by simp
  then have ex: "\<exists>r \<in> set (cards d). c_uuid r = c_uuid c'" using assms(2) by auto
  have "filter (\<lambda>r. c_uuid r = k) (map (\<lambda>r. if c_uuid r = k then c' else r) (cards d)) = [c']"
    using filter_map_replace [of "\<lambda>r. c_uuid r = k" c' "cards d"] assms(2) f by simp
  with ex assms(2) show ?thesis by (simp add: card_save_def objects_get_Inr)
qed

text \<open>
  The two ways \<open>fusion\<close> ends: the loop and the test after it passed, and the card is
  saved with its new user; or an exception was raised, before anything was written to the
  table of cards.
\<close>

lemma fusion_outcome:
  assumes row: "objects_get (\<lambda>r. c_uuid r = c_uuid c) (cards d) = Inr c"
    and eph: "c_wallet_ephemere c = Some eph"
    and out: "fusion M rqo c eph u d = (r, d')"
  shows "(r = Inr u \<and> positive_tokens eph d' = [] \<and>
          objects_get (\<lambda>r. c_uuid r = c_uuid c) (cards d') =
            Inr (c\<lparr>c_wallet_ephemere := None, c_user := Some (u_uuid u)\<rparr>)) \<or>
         ((\<exists>e. r = Inl e) \<and> cards d' = cards d)"
proof -
  let ?loop = "if eph \<noteq> u_wallet u
            then fusion_loop M rqo c eph u (positive_tokens eph d) d
            else (Inr (), d)"
  obtain r1 d1 where loop: "?loop = (r1, d1)" by (cases ?loop)
  have keep: "cards d1 = cards d"
  proof (cases "eph \<noteq> u_wallet u")
    case True
    with loop fusion_loop_cards [of M rqo c eph u "positive_tokens eph d" d r1 d1]
    show ?thesis by simp
  next
    case False
    with loop show ?thesis by simp
  qed
  show ?thesis
  proof (cases r1)
    case (Inl e)
    with out loop have "r = Inl e \<and> d' = d1" by (simp add: fusion_def)
    with keep show ?thesis by simp
  next
    case (Inr x)
    have row1: "objects_get (\<lambda>r. c_uuid r = c_uuid c) (cards d1) = Inr c"
      using row keep by simp
    let ?c = "c\<lparr>c_wallet_ephemere := None, c_user := Some (u_uuid u)\<rparr>"
    show ?thesis
    proof (cases "positive_tokens eph d1 = []")
      case True
      with out loop Inr row1 eph have rd: "r = Inr u" "d' = card_save ?c d1"
        by (simp_all add: fusion_def)
      have "positive_tokens eph d' = []"
        using True rd by (simp add: positive_tokens_def card_save_fields)
      moreover have "objects_get (\<lambda>r. c_uuid r = c_uuid c) (cards d') = Inr ?c"
        unfolding rd using card_save_get [OF row1, of ?c] by simp
      ultimately show ?thesis using rd by simp
    next
      case False
      with out loop Inr row1 eph
      have "r = Inl (ValidationError ''Wallet ephemere not empty after fusion'') \<and> d' = d1"
        by (simp add: fusion_def)
      with keep show ?thesis by simp
    qed
  qed
qed

text \<open>
  C9. After every wallet-fusion attempt (\<open>validate\<close> of \<open>WalletCreateSerializer\<close> for a card
  \<open>c\<close> of the database that has no user and holds the ephemeral wallet \<open>eph\<close>, claimed with
  the e-mail address of the existing user \<open>u\<close>) exactly one of two outcomes holds. Either
  the call returns: then no token of the ephemeral wallet has a positive balance (so each
  is zero, balances being non-negative), and the row of the card has its ephemeral wallet
  cleared and its user set to \<open>u\<close>. Or an error is raised: then the row of the card is
  unchanged, still holding the ephemeral wallet and no user.
\<close>

theorem fusion_all_or_nothing:
  assumes card: "py_or (wc_card_first_tag_id at) (wc_card_qrcode_uuid at) = Some c"
    and row: "objects_get (\<lambda>x. c_uuid x = c_uuid c) (cards d) = Inr c"
    and nouser: "c_user c = None"
    and eph: "c_wallet_ephemere c = Some eph"
    and user: "objects_get (\<lambda>x. u_email x = wc_email at) (users d) = Inr u"
    and out: "wallet_create_validate M rqo at d = (r, d')"
  shows
    "(r = Inr u \<and>
      (\<forall>t \<in> set (tokens d'). t_wallet t = eph \<longrightarrow> t_value t \<le> 0) \<and>
      ((\<forall>t \<in> set (tokens d'). 0 \<le> t_value t) \<longrightarrow>
         (\<forall>t \<in> set (tokens d'). t_wallet t = eph \<longrightarrow> t_value t = 0)) \<and>
      objects_get (\<lambda>x. c_uuid x = c_uuid c) (cards d') =
        Inr (c\<lparr>c_wallet_ephemere := None, c_user := Some (u_uuid u)\<rparr>) \<and>
      (\<forall>e. r \<noteq> Inl e))
     \<or>
     ((\<exists>e. r = Inl e) \<and>
      objects_get (\<lambda>x. c_uuid x = c_uuid c) (cards d') = Inr c \<and>
      r \<noteq> Inr u)"
proof -
  from user have "filter (\<lambda>x. u_email x = wc_email at) (users d) \<noteq> []"
    by (simp add: objects_get_Inr)
  with card nouser eph user out have f: "fusion M rqo c eph u d = (r, d')"
    by (simp add: wallet_create_validate_def)
  from fusion_outcome [OF row eph f] show ?thesis
  proof
    assume a: "r = Inr u \<and> positive_tokens eph d' = [] \<and>
          objects_get (\<lambda>r. c_uuid r = c_uuid c) (cards d') =
            Inr (c\<lparr>c_wallet_ephemere := None, c_user := Some (u_uuid u)\<rparr>)"
    then have "\<forall>t \<in> set (tokens d'). \<not> (t_wallet t = eph \<and> 0 < t_value t)"
      by (simp add: positive_tokens_def filter_empty_conv)
    then have z: "\<forall>t \<in> set (tokens d'). t_wallet t = eph \<longrightarrow> t_value t \<le> 0"
      by auto
    then have "(\<forall>t \<in> set (tokens d'). 0 \<le> t_value t) \<longrightarrow>
         (\<forall>t \<in> set (tokens d'). t_wallet t = eph \<longrightarrow> t_value t = 0)"
      by (meson order_antisym)
    with a z show ?thesis by simp
  next
    assume "(\<exists>e. r = Inl e) \<and> cards d' = cards d"
    with row show ?thesis by auto
  qed
qed

theorem fusion_all_or_nothing_witness:
  "fst (wallet_create_validate models_P (Some request_P) (claim_card ''u2@example.org'' card_C3) db_P) =
     Inr user_U2 \<and>
   tokens (snd (wallet_create_validate models_P (Some request_P)
                  (claim_card ''u2@example.org'' card_C3) db_P)) =
     [tok 10 asset_LOCAL 0, tok 11 asset_LOCAL 6, tok 30 asset_LOCAL 0,
      tok 11 asset_EXTERNAL 7, tok 11 asset_MEMBERSHIP 1, tok 12 asset_LOCAL 5] \<and>
   objects_get (\<lambda>x. c_uuid x = c_uuid card_C3)
     (cards (snd (wallet_create_validate models_P (Some request_P)
                    (claim_card ''u2@example.org'' card_C3) db_P))) =
     Inr (card_C3\<lparr>c_wallet_ephemere := None, c_user := Some (u_uuid user_U2)\<rparr>) \<and>
   fst (wallet_create_validate models_bad_hash (Some request_P)
          (claim_card ''u2@example.org'' card_C3) db_P) =
     Inl (ValidationError ''Transaction hash is not valid'') \<and>
   objects_get (\<lambda>x. c_uuid x = c_uuid card_C3)
     (cards (snd (wallet_create_validate models_bad_hash (Some request_P)
                    (claim_card ''u2@example.org'' card_C3) db_P))) =
     Inr card_C3"
proof -
  let ?at = "claim_card ''u2@example.org'' card_C3"
  let ?X = "wallet_create_validate models_P (Some request_P) ?at db_P"
  let ?Y = "wallet_create_validate models_bad_hash (Some request_P) ?at db_P"
  have card: "py_or (wc_card_first_tag_id ?at) (wc_card_qrcode_uuid ?at) = Some card_C3"
    by (simp add: world_defs code_defs claim_card_def models_bad_hash_def fusion_data_def
        positive_tokens_def fusion_def wallet_create_validate_def)
  have row: "objects_get (\<lambda>x. c_uuid x = c_uuid card_C3) (cards db_P) = Inr card_C3"
    by (simp add: world_defs code_defs claim_card_def models_bad_hash_def fusion_data_def
        positive_tokens_def fusion_def wallet_create_validate_def)
  have nouser: "c_user card_C3 = None" by (simp add: world_defs)
  have eph: "c_wallet_ephemere card_C3 = Some 30" by (simp add: world_defs)
  have user: "objects_get (\<lambda>x. u_email x = wc_email ?at) (users db_P) = Inr user_U2"
    by (simp add: world_defs code_defs claim_card_def models_bad_hash_def fusion_data_def
        positive_tokens_def fusion_def wallet_create_validate_def)
  have x: "fst ?X = Inr user_U2"
    by (simp add: world_defs code_defs claim_card_def models_bad_hash_def fusion_data_def
        positive_tokens_def fusion_def wallet_create_validate_def)
  have t: "tokens (snd ?X) =
     [tok 10 asset_LOCAL 0, tok 11 asset_LOCAL 6, tok 30 asset_LOCAL 0,
      tok 11 asset_EXTERNAL 7, tok 11 asset_MEMBERSHIP 1, tok 12 asset_LOCAL 5]"
    by (simp add: world_defs code_defs claim_card_def models_bad_hash_def fusion_data_def
        positive_tokens_def fusion_def wallet_create_validate_def)
  have y: "fst ?Y = Inl (ValidationError ''Transaction hash is not valid'')"
    by (simp add: world_defs code_defs claim_card_def models_bad_hash_def fusion_data_def
        positive_tokens_def fusion_def wallet_create_validate_def)
  from fusion_all_or_nothing [OF card row nouser eph user pair_of_fst [OF x]]
  have 1: "objects_get (\<lambda>x. c_uuid x = c_uuid card_C3) (cards (snd ?X)) =
     Inr (card_C3\<lparr>c_wallet_ephemere := None, c_user := Some (u_uuid user_U2)\<rparr>)"
    by blast
  from fusion_all_or_nothing [OF card row nouser eph user pair_of_fst [OF y]]
  have 2: "objects_get (\<lambda>x. c_uuid x = c_uuid card_C3) (cards (snd ?Y)) = Inr card_C3"
    by blast
  from x t 1 y 2 show ?thesis by blast
qed

end
